theory Spec2Isabelle
  imports Main
begin

section \<open>JavaScript strings, truthiness and thrown values\<close>

text \<open>
  Text is modelled as \<^typ>\<open>string\<close> over ASCII: \<open>toLowerCase\<close> folds the letters
  \<open>A\<close> to \<open>Z\<close> and leaves every other character alone. All keywords the flows search for
  are ASCII. A field that the model left out (\<open>undefined\<close>) is \<open>None\<close>.
\<close>

definition toLowerCaseChar :: "char \<Rightarrow> char" where
  "toLowerCaseChar c =
     (let n = (of_char c :: nat) in if 65 \<le> n \<and> n \<le> 90 then char_of (n + 32) else c)"

definition toLowerCase :: "string \<Rightarrow> string" where
  "toLowerCase s = map toLowerCaseChar s"

definition startsWith :: "string \<Rightarrow> string \<Rightarrow> bool" where
  "startsWith s p = (take (length p) s = p)"

text \<open>\<open>s.includes(k)\<close>: \<open>k\<close> occurs in \<open>s\<close> as a contiguous substring.\<close>

fun strIncludes :: "string \<Rightarrow> string \<Rightarrow> bool" where
  "strIncludes [] k = (k = [])"
| "strIncludes (c # cs) k = (startsWith (c # cs) k \<or> strIncludes cs k)"

text \<open>\<open>xs.join(sep)\<close>.\<close>

fun joinWith :: "string \<Rightarrow> string list \<Rightarrow> string" where
  "joinWith sep [] = []"
| "joinWith sep [x] = x"
| "joinWith sep (x # y # ys) = x @ sep @ joinWith sep (y # ys)"

text \<open>Decimal rendering of an array index or of a counter inside a template literal.\<close>

fun showNat :: "nat \<Rightarrow> string" where
  "showNat n =
     (if n < 10 then [char_of (48 + n)] else showNat (n div 10) @ [char_of (48 + n mod 10)])"

text \<open>\<open>!v\<close> for an optional string: absent and empty strings are falsy.\<close>

definition falsy :: "string option \<Rightarrow> bool" where
  "falsy v = (case v of None \<Rightarrow> True | Some s \<Rightarrow> s = [])"

text \<open>
  A Zod issue carries the path of the offending field and a reason. A thrown value is either
  a \<open>ZodError\<close> with its issues, or an \<open>Error\<close> with its message (an empty message stands
  for any falsy \<open>error.message\<close>).
\<close>

datatype seg = Key string | Index nat

record issue =
  path :: "seg list"
  message :: string

datatype exn = ZodError "issue list" | Error string

text \<open>The result of awaiting a call of the hosted model: it rejects or it resolves.\<close>

datatype 'a outcome = Throws exn | Resolves 'a

text \<open>
  How a flow fails, tagged by the \<open>throw\<close> statement that ends it: the caught or uncaught
  exception leaving the flow as it is (\<open>Propagated\<close>), the wrapped validation error, the
  error after the last retry, the statement after the retry loop, and a \<open>new Error\<close> raised
  by a flow without a retry loop.
\<close>

datatype failure =
    Propagated exn
  | ValidationFailed string
  | RetriesExhausted string
  | UnexpectedFallthrough string
  | Raised string

text \<open>What a flow does to the outside world, in order.\<close>

datatype part = Text string | Media string

datatype event = Prompt | Generate "part list" | Sleep nat

section \<open>The Zod schemas\<close>

text \<open>
  \<open>Schema.parse\<close> of the Zod library collects one issue per violated field, in the order of
  the schema's keys and of the array's elements, and throws a \<open>ZodError\<close> holding all of
  them when there is any. An absent \<open>z.string()\<close> is reported as \<open>Required\<close>.
\<close>

definition zString :: "seg list \<Rightarrow> string option \<Rightarrow> issue list" where
  "zString p v = (case v of None \<Rightarrow> [\<lparr>path = p, message = ''Required''\<rparr>] | Some s \<Rightarrow> [])"

definition segStr :: "seg \<Rightarrow> string" where
  "segStr s = (case s of Key k \<Rightarrow> k | Index i \<Rightarrow> showNat i)"

text \<open>\<open>e.path.join('.') || dflt\<close>.\<close>

definition pathOr :: "string \<Rightarrow> seg list \<Rightarrow> string" where
  "pathOr dflt p = (let s = joinWith ''.'' (map segStr p) in if s = [] then dflt else s)"

section \<open>Retry classification shared by the two retrying flows\<close>

definition maxRetries :: nat where
  "maxRetries = 3"

definition isRetryableError :: "string \<Rightarrow> bool" where
  "isRetryableError msg =
     (let errorMessage = toLowerCase (if msg = [] then ''Onbekende fout opgetreden'' else msg)
      in strIncludes errorMessage ''503'' \<or>
         strIncludes errorMessage ''service unavailable'' \<or>
         strIncludes errorMessage ''model is overloaded'' \<or>
         strIncludes errorMessage ''model_is_overloaded'' \<or>
         strIncludes errorMessage ''resource has been exhausted'' \<or>
         strIncludes errorMessage ''rate limit'' \<or>
         strIncludes errorMessage ''try again'')"

definition emptyOutputMessage :: string where
  "emptyOutputMessage =
     ''AI-analyse antwoordde, maar de output was leeg of niet in het verwachte formaat.''"

section \<open>analyzeClothingItemFlow\<close>

record AnalyzeClothingItemOutput =
  itemName :: "string option"
  itemType :: "string option"
  itemColor :: "string option"
  itemStyle :: "string option"
  fullDescription :: "string option"

definition AnalyzeClothingItemOutputSchema :: "AnalyzeClothingItemOutput \<Rightarrow> issue list" where
  "AnalyzeClothingItemOutputSchema v =
     zString [Key ''itemName''] (itemName v) @
     zString [Key ''itemType''] (itemType v) @
     zString [Key ''itemColor''] (itemColor v) @
     zString [Key ''itemStyle''] (itemStyle v) @
     zString [Key ''fullDescription''] (fullDescription v)"

text \<open>The body of the \<open>try\<close> block, given the outcome of \<open>await prompt(input)\<close>.\<close>

definition analyzeClothingItemTry ::
  "AnalyzeClothingItemOutput option outcome \<Rightarrow> exn + AnalyzeClothingItemOutput" where
  "analyzeClothingItemTry r =
     (case r of
        Throws e \<Rightarrow> Inl e
      | Resolves None \<Rightarrow> Inl (Error emptyOutputMessage)
      | Resolves (Some output) \<Rightarrow>
          (case AnalyzeClothingItemOutputSchema output of
             [] \<Rightarrow> Inr output
           | e # es \<Rightarrow> Inl (ZodError (e # es))))"

definition clothingIssueLine :: "issue \<Rightarrow> string" where
  "clothingIssueLine e = pathOr ''item'' (path e) @ '': '' @ message e"

definition clothingValidationMessage :: "issue list \<Rightarrow> string" where
  "clothingValidationMessage errors =
     ''AI-output validatiefout: De data van de AI voldoet niet aan het verwachte formaat. Details: ''
     @ joinWith ''; '' (map clothingIssueLine errors)"

definition clothingExhaustedMessage :: "string \<Rightarrow> string" where
  "clothingExhaustedMessage msg =
     ''AI-analyse mislukt na '' @ showNat maxRetries @
     '' pogingen vanwege API-problemen (bijv. overbelasting, rate limits). Laatste fout: '' @
     (if msg = [] then ''Onbekende API fout'' else msg)"

text \<open>
  The \<open>for\<close> loop with its \<open>catch\<close> handler. \<open>prompt attempt\<close> is the outcome of the model call
  made in iteration \<open>attempt\<close>; the event trace records every call and every suspension.
\<close>

function analyzeClothingItemLoop ::
  "(nat \<Rightarrow> AnalyzeClothingItemOutput option outcome) \<Rightarrow> nat \<Rightarrow> nat \<Rightarrow> event list \<Rightarrow>
   (failure + AnalyzeClothingItemOutput) \<times> event list" where
  "analyzeClothingItemLoop prompt attempt delay tr =
     (if attempt < maxRetries then
        (case analyzeClothingItemTry (prompt attempt) of
           Inr output \<Rightarrow> (Inr output, tr @ [Prompt])
         | Inl (ZodError errors) \<Rightarrow>
             (Inl (ValidationFailed (clothingValidationMessage errors)), tr @ [Prompt])
         | Inl (Error msg) \<Rightarrow>
             if isRetryableError msg then
               if attempt < maxRetries - 1 then
                 analyzeClothingItemLoop prompt (attempt + 1) (delay * 2)
                   (tr @ [Prompt, Sleep delay])
               else (Inl (RetriesExhausted (clothingExhaustedMessage msg)), tr @ [Prompt])
             else (Inl (Propagated (Error msg)), tr @ [Prompt]))
      else (Inl (UnexpectedFallthrough ''AI-analyse is onverwacht mislukt na alle pogingen.''), tr))"
  by pat_completeness auto
termination
  by (relation "measure (\<lambda>(p, attempt, d, t). maxRetries - attempt)") auto

definition analyzeClothingItemFlow ::
  "(nat \<Rightarrow> AnalyzeClothingItemOutput option outcome) \<Rightarrow>
   (failure + AnalyzeClothingItemOutput) \<times> event list" where
  "analyzeClothingItemFlow prompt = analyzeClothingItemLoop prompt 0 2000 []"

section \<open>performColorAnalysisFlow\<close>

record ColorInfo =
  name :: "string option"
  hex :: "string option"

record Characteristics =
  skinTone :: "string option"
  hairColor :: "string option"
  eyeColor :: "string option"

record PerformColorAnalysisOutput =
  seasonType :: "string option"
  analysisDescription :: "string option"
  characteristics :: "Characteristics option"
  recommendedColors :: "ColorInfo list option"
  avoidColors :: "ColorInfo list option"
  paletteDescription :: "string option"

text \<open>The regular expression \<open>/^#[0-9A-F]{6}$/i\<close>.\<close>

definition isHexDigit :: "char \<Rightarrow> bool" where
  "isHexDigit c = (c \<in> set ''0123456789abcdefABCDEF'')"

definition hexRegex :: "string \<Rightarrow> bool" where
  "hexRegex s =
     (case s of [] \<Rightarrow> False | c # cs \<Rightarrow> c = CHR ''#'' \<and> length cs = 6 \<and> list_all isHexDigit cs)"

definition hexMessage :: string where
  "hexMessage = ''Moet een geldige hex-kleurcode zijn (bijv. #FF5733).''"

definition ColorInfoSchema :: "seg list \<Rightarrow> ColorInfo \<Rightarrow> issue list" where
  "ColorInfoSchema p c =
     zString (p @ [Key ''name'']) (name c) @
     (case hex c of
        None \<Rightarrow> [\<lparr>path = p @ [Key ''hex''], message = ''Required''\<rparr>]
      | Some h \<Rightarrow> if hexRegex h then [] else [\<lparr>path = p @ [Key ''hex''], message = hexMessage\<rparr>])"

text \<open>\<open>z.array(ColorInfoSchema)\<close>: no length constraint is declared on the array.\<close>

fun colorArrayFrom :: "seg list \<Rightarrow> nat \<Rightarrow> ColorInfo list \<Rightarrow> issue list" where
  "colorArrayFrom p i [] = []"
| "colorArrayFrom p i (c # cs) = ColorInfoSchema (p @ [Index i]) c @ colorArrayFrom p (Suc i) cs"

definition zColorArray :: "seg list \<Rightarrow> ColorInfo list option \<Rightarrow> issue list" where
  "zColorArray p v =
     (case v of None \<Rightarrow> [\<lparr>path = p, message = ''Required''\<rparr>] | Some cs \<Rightarrow> colorArrayFrom p 0 cs)"

definition CharacteristicsSchema :: "seg list \<Rightarrow> Characteristics option \<Rightarrow> issue list" where
  "CharacteristicsSchema p v =
     (case v of
        None \<Rightarrow> [\<lparr>path = p, message = ''Required''\<rparr>]
      | Some ch \<Rightarrow>
          zString (p @ [Key ''skinTone'']) (skinTone ch) @
          zString (p @ [Key ''hairColor'']) (hairColor ch) @
          zString (p @ [Key ''eyeColor'']) (eyeColor ch))"

definition PerformColorAnalysisOutputSchema :: "PerformColorAnalysisOutput \<Rightarrow> issue list" where
  "PerformColorAnalysisOutputSchema v =
     zString [Key ''seasonType''] (seasonType v) @
     zString [Key ''analysisDescription''] (analysisDescription v) @
     CharacteristicsSchema [Key ''characteristics''] (characteristics v) @
     zColorArray [Key ''recommendedColors''] (recommendedColors v) @
     zColorArray [Key ''avoidColors''] (avoidColors v) @
     zString [Key ''paletteDescription''] (paletteDescription v)"

subsection \<open>Post-processing of the model's output\<close>

definition unanalyzableSeasonKeywords :: "string list" where
  "unanalyzableSeasonKeywords =
     [''niet te bepalen'', ''onvoldoende informatie'', ''kan niet analyseren'',
      ''geen gezicht'', ''onmogelijk te bepalen'']"

text \<open>\<open>unanalyzableSeasonKeywords.some(keyword => s.toLowerCase().includes(keyword.toLowerCase()))\<close>.\<close>

definition someKeyword :: "string \<Rightarrow> bool" where
  "someKeyword s =
     list_ex (\<lambda>keyword. strIncludes (toLowerCase s) (toLowerCase keyword))
       unanalyzableSeasonKeywords"

definition isUnanalyzable :: "PerformColorAnalysisOutput \<Rightarrow> bool" where
  "isUnanalyzable output =
     (case seasonType output of None \<Rightarrow> False | Some s \<Rightarrow> s \<noteq> [] \<and> someKeyword s)"

definition sentinel :: string where
  "sentinel = ''Niet te bepalen''"

definition fallbackDescription :: string where
  "fallbackDescription =
     ''De AI kon geen betrouwbare kleuranalyse uitvoeren op basis van de verstrekte afbeelding. Zorg voor een duidelijke foto van het gezicht bij goed daglicht, zonder zware make-up en met een neutrale achtergrond.''"

definition fallbackPalette :: string where
  "fallbackPalette = ''Niet te bepalen omdat het seizoen niet vastgesteld kon worden.''"

definition sentinelCharacteristics :: Characteristics where
  "sentinelCharacteristics =
     \<lparr>skinTone = Some sentinel, hairColor = Some sentinel, eyeColor = Some sentinel\<rparr>"

text \<open>
  Reading \<open>.toLowerCase\<close> or \<open>.length\<close> of an absent field throws a \<open>TypeError\<close> inside the
  \<open>try\<close> block; its message is the engine's.
\<close>

definition apostrophe :: string where
  "apostrophe = [CHR 0x27]"

definition typeErrorToLowerCase :: string where
  "typeErrorToLowerCase =
     ''Cannot read properties of undefined (reading '' @ apostrophe @ ''toLowerCase'' @
     apostrophe @ '')''"

definition typeErrorLength :: string where
  "typeErrorLength =
     ''Cannot read properties of undefined (reading '' @ apostrophe @ ''length'' @
     apostrophe @ '')''"

definition fixDescription :: "string option \<Rightarrow> string option" where
  "fixDescription d =
     (case d of
        None \<Rightarrow> Some fallbackDescription
      | Some s \<Rightarrow> if s = [] \<or> \<not> someKeyword s then Some fallbackDescription else Some s)"

definition fixCharacteristics :: "Characteristics option \<Rightarrow> exn + Characteristics option" where
  "fixCharacteristics c =
     (case c of
        None \<Rightarrow> Inr (Some sentinelCharacteristics)
      | Some ch \<Rightarrow>
          (case skinTone ch of
             None \<Rightarrow> Inl (Error typeErrorToLowerCase)
           | Some s \<Rightarrow>
               if \<not> strIncludes (toLowerCase s) ''niet te bepalen''
               then Inr (Some sentinelCharacteristics) else Inr (Some ch)))"

definition fixPalette :: "string option \<Rightarrow> string option" where
  "fixPalette d =
     (case d of
        None \<Rightarrow> Some fallbackPalette
      | Some s \<Rightarrow>
          if s = [] \<or> \<not> strIncludes (toLowerCase s) ''niet te bepalen''
          then Some fallbackPalette else Some s)"

text \<open>
  The post-processing step between the model call and \<open>parse\<close>. In the branch of a determined
  season the two \<open>if\<close> statements have empty bodies: they only read the lengths.
\<close>

definition postProcess :: "PerformColorAnalysisOutput \<Rightarrow> exn + PerformColorAnalysisOutput" where
  "postProcess output =
     (if isUnanalyzable output then
        (case fixCharacteristics (characteristics output) of
           Inl e \<Rightarrow> Inl e
         | Inr ch \<Rightarrow>
             Inr (output\<lparr>recommendedColors := Some [],
                         avoidColors := Some [],
                         analysisDescription := fixDescription (analysisDescription output),
                         characteristics := ch,
                         paletteDescription := fixPalette (paletteDescription output)\<rparr>))
      else
        (case recommendedColors output of
           None \<Rightarrow> Inl (Error typeErrorLength)
         | Some rs \<Rightarrow>
             (case avoidColors output of
                None \<Rightarrow> Inl (Error typeErrorLength)
              | Some as \<Rightarrow> Inr output)))"

definition performColorAnalysisTry ::
  "PerformColorAnalysisOutput option outcome \<Rightarrow> exn + PerformColorAnalysisOutput" where
  "performColorAnalysisTry r =
     (case r of
        Throws e \<Rightarrow> Inl e
      | Resolves None \<Rightarrow> Inl (Error emptyOutputMessage)
      | Resolves (Some raw) \<Rightarrow>
          (case postProcess raw of
             Inl e \<Rightarrow> Inl e
           | Inr output \<Rightarrow>
               (case PerformColorAnalysisOutputSchema output of
                  [] \<Rightarrow> Inr output
                | e # es \<Rightarrow> Inl (ZodError (e # es)))))"

definition colorIssueLine :: "issue \<Rightarrow> string" where
  "colorIssueLine e =
     ''Veld '' @ apostrophe @ pathOr ''root'' (path e) @ apostrophe @ '': '' @ message e"

definition colorValidationMessage :: "issue list \<Rightarrow> string" where
  "colorValidationMessage errors =
     ''AI-output validatiefout: '' @ joinWith ''; '' (map colorIssueLine errors) @
     ''. Controleer of de AI de data in het juiste formaat retourneert, inclusief het correcte aantal kleuren indien een seizoen is bepaald.''"

definition colorExhaustedMessage :: "string \<Rightarrow> string" where
  "colorExhaustedMessage msg =
     ''AI-analyse mislukt na '' @ showNat maxRetries @
     '' pogingen vanwege API-problemen (bijv. overbelasting, rate limits). Probeer het later opnieuw. Fout: '' @
     (if msg = [] then ''Onbekende API fout'' else msg)"

function performColorAnalysisLoop ::
  "(nat \<Rightarrow> PerformColorAnalysisOutput option outcome) \<Rightarrow> nat \<Rightarrow> nat \<Rightarrow> event list \<Rightarrow>
   (failure + PerformColorAnalysisOutput) \<times> event list" where
  "performColorAnalysisLoop prompt attempt delay tr =
     (if attempt < maxRetries then
        (case performColorAnalysisTry (prompt attempt) of
           Inr output \<Rightarrow> (Inr output, tr @ [Prompt])
         | Inl (ZodError errors) \<Rightarrow>
             (Inl (ValidationFailed (colorValidationMessage errors)), tr @ [Prompt])
         | Inl (Error msg) \<Rightarrow>
             if isRetryableError msg then
               if attempt < maxRetries - 1 then
                 performColorAnalysisLoop prompt (attempt + 1) (delay * 2)
                   (tr @ [Prompt, Sleep delay])
               else (Inl (RetriesExhausted (colorExhaustedMessage msg)), tr @ [Prompt])
             else (Inl (Propagated (Error msg)), tr @ [Prompt]))
      else
        (Inl (UnexpectedFallthrough ''De kleuranalyse is onverwacht mislukt na alle pogingen.''),
         tr))"
  by pat_completeness auto
termination
  by (relation "measure (\<lambda>(p, attempt, d, t). maxRetries - attempt)") auto

definition performColorAnalysisFlow ::
  "(nat \<Rightarrow> PerformColorAnalysisOutput option outcome) \<Rightarrow>
   (failure + PerformColorAnalysisOutput) \<times> event list" where
  "performColorAnalysisFlow prompt = performColorAnalysisLoop prompt 0 2000 []"

section \<open>generateOutfitInspirationFlow\<close>

record GenerateOutfitInspirationOutput =
  inspiredOutfits :: "string list option"

text \<open>The flow awaits \<open>prompt(input)\<close> once, outside any \<open>try\<close>; \<open>r\<close> is that call's outcome.\<close>

definition generateOutfitInspirationFlow ::
  "GenerateOutfitInspirationOutput option outcome \<Rightarrow>
   (failure + GenerateOutfitInspirationOutput) \<times> event list" where
  "generateOutfitInspirationFlow r =
     (case r of
        Throws e \<Rightarrow> (Inl (Propagated e), [Prompt])
      | Resolves None \<Rightarrow>
          (Inl (Raised ''AI response for outfit inspiration was empty or not in the expected format.''),
           [Prompt])
      | Resolves (Some output) \<Rightarrow>
          (case inspiredOutfits output of
             None \<Rightarrow>
               (Inl (Raised ''AI response for outfit inspiration was empty or not in the expected format.''),
                [Prompt])
           | Some outfits \<Rightarrow> (Inr output, [Prompt])))"

section \<open>generateOutfitSuggestionFlow\<close>

record OutfitTextOutput =
  outfitSuggestion :: "string option"
  reasoning :: "string option"
  suggestedShoes :: "string option"
  suggestedSocks :: "string option"

record GenerateOutfitSuggestionOutput = OutfitTextOutput +
  outfitImageUrl :: string

text \<open>An optional string inside a template literal.\<close>

definition tpl :: "string option \<Rightarrow> string" where
  "tpl v = (case v of None \<Rightarrow> ''undefined'' | Some s \<Rightarrow> s)"

definition imagePromptText :: "OutfitTextOutput \<Rightarrow> string" where
  "imagePromptText textOutput =
     ''Generate a high-quality, realistic image of a person wearing the following outfit: '' @
     tpl (outfitSuggestion textOutput) @
     ''. The person should also be wearing '' @ tpl (suggestedShoes textOutput) @
     (if falsy (suggestedSocks textOutput) then [] else '' with '' @ tpl (suggestedSocks textOutput)) @
     ''. Ensure the style is fashionable and clear, and that the shoes and any visible socks are clearly depicted. The image should be suitable for a fashion app.''"

definition incompleteTextMessage :: string where
  "incompleteTextMessage =
     ''AI response for outfit text suggestion was empty, incomplete, or not in the expected format.''"

text \<open>
  \<open>textResult\<close> is the outcome of \<open>await textPrompt(input)\<close>; \<open>imageResult\<close> is the outcome
  of \<open>await ai.generate(...)\<close>, resolving to the value of \<open>media?.url\<close>. The second call is
  made, and logged as \<open>Generate\<close> with its prompt, only when the flow reaches it.
\<close>

definition generateOutfitSuggestionFlow ::
  "OutfitTextOutput option outcome \<Rightarrow> string option outcome \<Rightarrow>
   (failure + GenerateOutfitSuggestionOutput) \<times> event list" where
  "generateOutfitSuggestionFlow textResult imageResult =
     (case textResult of
        Throws e \<Rightarrow> (Inl (Propagated e), [Prompt])
      | Resolves None \<Rightarrow> (Inl (Raised incompleteTextMessage), [Prompt])
      | Resolves (Some textOutput) \<Rightarrow>
          if falsy (outfitSuggestion textOutput) \<or> falsy (suggestedShoes textOutput) \<or>
             falsy (reasoning textOutput)
          then (Inl (Raised incompleteTextMessage), [Prompt])
          else
            (case imageResult of
               Throws e \<Rightarrow>
                 (Inl (Propagated e), [Prompt, Generate [Text (imagePromptText textOutput)]])
             | Resolves None \<Rightarrow>
                 (Inl (Raised ''Failed to generate outfit image.''),
                  [Prompt, Generate [Text (imagePromptText textOutput)]])
             | Resolves (Some url) \<Rightarrow>
                 if url = [] then
                   (Inl (Raised ''Failed to generate outfit image.''),
                    [Prompt, Generate [Text (imagePromptText textOutput)]])
                 else
                   (Inr \<lparr>outfitSuggestion = outfitSuggestion textOutput,
                         reasoning = reasoning textOutput,
                         suggestedShoes = suggestedShoes textOutput,
                         suggestedSocks = suggestedSocks textOutput,
                         outfitImageUrl = url\<rparr>,
                    [Prompt, Generate [Text (imagePromptText textOutput)]])))"

section \<open>generateOutfitVisualizationFlow\<close>

text \<open>The input's own \<open>description\<close> field is named \<open>outfitDescription\<close> here.\<close>

record ClothingItemVisual =
  description :: string
  imageUrl :: "string option"

record GenerateOutfitVisualizationInput =
  outfitDescription :: string
  items :: "ClothingItemVisual list option"

record GenerateOutfitVisualizationOutput =
  visualizationUrl :: string

text \<open>The body of the loop over \<open>input.items\<close>: the segments one item contributes.\<close>

definition itemSegments :: "ClothingItemVisual \<Rightarrow> part list" where
  "itemSegments item =
     (case imageUrl item of
        None \<Rightarrow> [Text (''- '' @ description item)]
      | Some url \<Rightarrow>
          if url = [] then [Text (''- '' @ description item)]
          else if startsWith url ''data:image'' then
            [Media url, Text (''This is a '' @ description item @ ''.'')]
          else
            [Text (''(Image for '' @ description item @ '' was not in correct data URI format)'')])"

definition promptSegments :: "GenerateOutfitVisualizationInput \<Rightarrow> part list" where
  "promptSegments input =
     [Text (''Generate a high-quality, realistic image of a person wearing the following outfit: ''
            @ outfitDescription input @ ''.''),
      Text ''Ensure the style is fashionable and clear. The image should be suitable for a fashion app.'']
     @ (case items input of
          None \<Rightarrow> []
        | Some its \<Rightarrow>
            if length its > 0 then
              Text ([CHR 0x0A, CHR 0x0A] @
                ''For additional context, here are some of the items included (prioritize the main description above):'')
              # concat (map itemSegments its)
            else [])"

definition visualizationFailedMessage :: string where
  "visualizationFailedMessage =
     ''Failed to generate outfit visualization image. The AI might have declined the request or an unknown error occurred.''"

definition generateOutfitVisualizationFlow ::
  "string option outcome \<Rightarrow> GenerateOutfitVisualizationInput \<Rightarrow>
   (failure + GenerateOutfitVisualizationOutput) \<times> event list" where
  "generateOutfitVisualizationFlow generateResult input =
     (case generateResult of
        Throws e \<Rightarrow> (Inl (Propagated e), [Generate (promptSegments input)])
      | Resolves None \<Rightarrow> (Inl (Raised visualizationFailedMessage), [Generate (promptSegments input)])
      | Resolves (Some url) \<Rightarrow>
          if url = [] then (Inl (Raised visualizationFailedMessage), [Generate (promptSegments input)])
          else (Inr \<lparr>visualizationUrl = url\<rparr>, [Generate (promptSegments input)]))"

section \<open>Observations on traces and the data-URI format of the specification\<close>

definition calls :: "event list \<Rightarrow> nat" where
  "calls tr = length (filter (\<lambda>e. e = Prompt) tr)"

fun delays :: "event list \<Rightarrow> nat list" where
  "delays [] = []"
| "delays (Sleep d # tr) = d # delays tr"
| "delays (e # tr) = delays tr"


fun generatedWith :: "event list \<Rightarrow> part list" where
  "generatedWith [] = []"
| "generatedWith (Generate ps # tr) = ps @ generatedWith tr"
| "generatedWith (e # tr) = generatedWith tr"


text \<open>
  The keywords the specification lists for a retryable failure, and the trace of \<open>k\<close> failed
  attempts, each followed by its suspension: 2000 first, doubled every time.
\<close>

definition retryKeywords :: "string list" where
  "retryKeywords =
     [''503'', ''service unavailable'', ''model is overloaded'', ''model_is_overloaded'',
      ''resource has been exhausted'', ''rate limit'', ''try again'']"

fun backoffTrace :: "nat \<Rightarrow> event list" where
  "backoffTrace 0 = []"
| "backoffTrace (Suc k) = backoffTrace k @ [Prompt, Sleep (2000 * 2 ^ k)]"

section \<open>Concrete scenarios\<close>

text \<open>A model that fails \<open>n\<close> times with the message \<open>msg\<close> and then answers \<open>r\<close>.\<close>

definition scripted :: "nat \<Rightarrow> string \<Rightarrow> 'a outcome \<Rightarrow> nat \<Rightarrow> 'a outcome" where
  "scripted n msg r attempt = (if attempt < n then Throws (Error msg) else r)"

definition blueShirt :: AnalyzeClothingItemOutput where
  "blueShirt =
     \<lparr>itemName = Some ''Blauwe Katoenen T-shirt'', itemType = Some ''T-shirt'',
      itemColor = Some ''Marineblauw'', itemStyle = Some ''Casual'',
      fullDescription = Some ''Een blauw katoenen T-shirt.''\<rparr>"

definition shirtWithoutTypeAndStyle :: AnalyzeClothingItemOutput where
  "shirtWithoutTypeAndStyle = blueShirt\<lparr>itemType := None, itemStyle := None\<rparr>"

definition warmOrange :: ColorInfo where
  "warmOrange = \<lparr>name = Some ''Warm Oranje'', hex = Some ''#FF5733''\<rparr>"

definition coolBlue :: ColorInfo where
  "coolBlue = \<lparr>name = Some ''Koel Blauw'', hex = Some ''#1e90ff''\<rparr>"

definition springResult :: PerformColorAnalysisOutput where
  "springResult =
     \<lparr>seasonType = Some ''Lente'',
      analysisDescription = Some ''Warme ondertoon met heldere ogen.'',
      characteristics =
        Some \<lparr>skinTone = Some ''Warm met gouden ondertoon'', hairColor = Some ''Goudblond'',
              eyeColor = Some ''Helderblauw''\<rparr>,
      recommendedColors = Some [warmOrange, warmOrange, warmOrange, warmOrange, warmOrange],
      avoidColors = Some [coolBlue, coolBlue, coolBlue],
      paletteDescription = Some ''Heldere, warme kleuren''\<rparr>"

text \<open>A determined season with one recommended colour and no colour to avoid.\<close>

definition underfilledSpring :: PerformColorAnalysisOutput where
  "underfilledSpring = springResult\<lparr>recommendedColors := Some [warmOrange], avoidColors := Some []\<rparr>"

text \<open>A determined season whose colours carry two malformed codes.\<close>

definition badHexSpring :: PerformColorAnalysisOutput where
  "badHexSpring =
     springResult\<lparr>recommendedColors := Some [warmOrange, \<lparr>name = Some ''Rood'', hex = Some ''red''\<rparr>],
                  avoidColors := Some [\<lparr>name = Some ''Grijs'', hex = Some ''#12345G''\<rparr>]\<rparr>"

text \<open>An undetermined season that still comes with descriptors, colours and a palette.\<close>

definition strayUndetermined :: PerformColorAnalysisOutput where
  "strayUndetermined = springResult\<lparr>seasonType := Some ''Niet te bepalen''\<rparr>"

text \<open>What the post-processing makes of \<open>strayUndetermined\<close>.\<close>

definition strayNormalized :: PerformColorAnalysisOutput where
  "strayNormalized =
     \<lparr>seasonType = Some ''Niet te bepalen'',
      analysisDescription = Some fallbackDescription,
      characteristics = Some sentinelCharacteristics,
      recommendedColors = Some [],
      avoidColors = Some [],
      paletteDescription = Some ''Niet te bepalen omdat het seizoen niet vastgesteld kon worden.''\<rparr>"

definition normalizedUndetermined :: PerformColorAnalysisOutput where
  "normalizedUndetermined =
     \<lparr>seasonType = Some ''Niet te bepalen'',
      analysisDescription = Some ''Er is geen gezicht zichtbaar op de foto.'',
      characteristics = Some sentinelCharacteristics,
      recommendedColors = Some [],
      avoidColors = Some [],
      paletteDescription = Some sentinel\<rparr>"

definition icyBlue :: ColorInfo where
  "icyBlue = \<lparr>name = Some ''IJsblauw'', hex = Some ''#1E90FF''\<rparr>"

definition winterResult :: PerformColorAnalysisOutput where
  "winterResult =
     \<lparr>seasonType = Some ''Winter'',
      analysisDescription = Some ''Koele ondertoon met donker haar.'',
      characteristics =
        Some \<lparr>skinTone = Some ''Koel met roze ondertoon'', hairColor = Some ''Donkerbruin'',
              eyeColor = Some ''Donkerbruin''\<rparr>,
      recommendedColors = Some [icyBlue, icyBlue, icyBlue, icyBlue, icyBlue],
      avoidColors = Some [warmOrange, warmOrange, warmOrange],
      paletteDescription = Some ''Heldere, koele kleuren''\<rparr>"

text \<open>A schema-valid answer that declares the season undetermined and still describes one.\<close>

definition undeterminedWinter :: PerformColorAnalysisOutput where
  "undeterminedWinter = winterResult\<lparr>seasonType := Some ''Niet te bepalen''\<rparr>"

text \<open>A determined season whose list of recommended colours is absent.\<close>

definition winterNoRecommended :: PerformColorAnalysisOutput where
  "winterNoRecommended = winterResult\<lparr>recommendedColors := None\<rparr>"

text \<open>An answer that holds nothing but an undetermined season, and what the flow returns for it.\<close>

definition onlySeason :: PerformColorAnalysisOutput where
  "onlySeason =
     \<lparr>seasonType = Some ''Kan niet analyseren'', analysisDescription = None,
      characteristics = None, recommendedColors = None, avoidColors = None,
      paletteDescription = None\<rparr>"

definition onlySeasonRepaired :: PerformColorAnalysisOutput where
  "onlySeasonRepaired =
     \<lparr>seasonType = Some ''Kan niet analyseren'',
      analysisDescription = Some fallbackDescription,
      characteristics = Some sentinelCharacteristics,
      recommendedColors = Some [],
      avoidColors = Some [],
      paletteDescription = Some fallbackPalette\<rparr>"

text \<open>An undetermined season whose skin tone is the sentinel while the other descriptors are absent.\<close>

definition halfSentinel :: PerformColorAnalysisOutput where
  "halfSentinel =
     \<lparr>seasonType = Some ''Niet te bepalen'',
      analysisDescription = Some ''Er is geen gezicht zichtbaar op de foto.'',
      characteristics = Some \<lparr>skinTone = Some sentinel, hairColor = None, eyeColor = None\<rparr>,
      recommendedColors = Some [],
      avoidColors = Some [],
      paletteDescription = Some sentinel\<rparr>"

definition jeansNoShoes :: OutfitTextOutput where
  "jeansNoShoes =
     \<lparr>outfitSuggestion = Some ''Jeans met een witte blouse'', reasoning = Some ''Past bij het weer.'',
      suggestedShoes = None, suggestedSocks = None\<rparr>"

definition denimLook :: GenerateOutfitVisualizationInput where
  "denimLook =
     \<lparr>outfitDescription = ''Denim jacket over a white t-shirt'',
      items = Some [\<lparr>description = ''Blue denim jacket'', imageUrl = Some ''data:image/png,rawbytes''\<rparr>,
                    \<lparr>description = ''White cotton t-shirt'', imageUrl = Some ''https://example.com/shirt.png''\<rparr>]\<rparr>"

section \<open>Properties\<close>

subsection \<open>Substrings and the retry classification\<close>

lemma startsWith_iff: "startsWith s p \<longleftrightarrow> (\<exists>ss. s = p @ ss)"
proof
  assume "startsWith s p"
  then have "s = p @ drop (length p) s"
    unfolding startsWith_def by (metis append_take_drop_id)
  then show "\<exists>ss. s = p @ ss" ..
next
  assume "\<exists>ss. s = p @ ss"
  then show "startsWith s p" unfolding startsWith_def by auto
qed

lemma strIncludes_iff: "strIncludes s k \<longleftrightarrow> (\<exists>ps ss. s = ps @ k @ ss)"
proof (induction s)
  case Nil
  show ?case by auto
next
  case (Cons c cs)
  show ?case
  proof
    assume "strIncludes (c # cs) k"
    then consider "startsWith (c # cs) k" | "strIncludes cs k" by auto
    then show "\<exists>ps ss. c # cs = ps @ k @ ss"
    proof cases
      case 1
      then obtain ss where "c # cs = k @ ss" using startsWith_iff by blast
      then have "c # cs = [] @ k @ ss" by simp
      then show ?thesis by blast
    next
      case 2
      then obtain ps ss where "cs = ps @ k @ ss" using Cons.IH by blast
      then have "c # cs = (c # ps) @ k @ ss" by simp
      then show ?thesis by blast
    qed
  next
    assume "\<exists>ps ss. c # cs = ps @ k @ ss"
    then obtain ps ss where eq: "c # cs = ps @ k @ ss" by blast
    show "strIncludes (c # cs) k"
    proof (cases ps)
      case Nil
      with eq have "startsWith (c # cs) k" using startsWith_iff by auto
      then show ?thesis by simp
    next
      case (Cons p ps')
      with eq have "cs = ps' @ k @ ss" by simp
      then have "strIncludes cs k" using Cons.IH by blast
      then show ?thesis by simp
    qed
  qed
qed

lemma strIncludes_embed: "strIncludes s k \<Longrightarrow> strIncludes (a @ s @ b) k"
proof -
  assume "strIncludes s k"
  then obtain ps ss where "s = ps @ k @ ss" using strIncludes_iff by blast
  then have "a @ s @ b = (a @ ps) @ k @ (ss @ b)" by simp
  then show ?thesis using strIncludes_iff by blast
qed

lemma strIncludes_self: "strIncludes s s"
  using strIncludes_iff [of s s] by (metis append_Nil append_Nil2)

lemma joinWith_includes: "x \<in> set xs \<Longrightarrow> strIncludes (joinWith sep xs) x"
proof (induction sep xs rule: joinWith.induct)
  case (1 sep)
  then show ?case by simp
next
  case (2 sep y)
  then show ?case by (simp add: strIncludes_self)
next
  case (3 sep y z zs)
  show ?case
  proof (cases "x = y")
    case True
    have "strIncludes ([] @ x @ (sep @ joinWith sep (z # zs))) x"
      by (rule strIncludes_embed) (rule strIncludes_self)
    with True show ?thesis by simp
  next
    case False
    with "3.prems" have "x \<in> set (z # zs)" by simp
    then have "strIncludes (joinWith sep (z # zs)) x" by (rule "3.IH")
    then have "strIncludes ((y @ sep) @ joinWith sep (z # zs) @ []) x"
      by (rule strIncludes_embed)
    then show ?thesis by simp
  qed
qed

lemma toLowerCase_append: "toLowerCase (a @ b) = toLowerCase a @ toLowerCase b"
  by (simp add: toLowerCase_def)

lemma strIncludes_toLowerCase:
  "strIncludes s k \<Longrightarrow> strIncludes (toLowerCase s) (toLowerCase k)"
proof -
  assume "strIncludes s k"
  then obtain ps ss where "s = ps @ k @ ss" using strIncludes_iff by blast
  then have "toLowerCase s = toLowerCase ps @ toLowerCase k @ toLowerCase ss"
    by (simp add: toLowerCase_append)
  then show ?thesis using strIncludes_iff by blast
qed

lemma default_message_not_retryable: "\<not> isRetryableError []"
  by code_simp

lemma empty_output_not_retryable: "\<not> isRetryableError emptyOutputMessage"
  by code_simp

lemma type_errors_not_retryable:
  "\<not> isRetryableError typeErrorLength" "\<not> isRetryableError typeErrorToLowerCase"
  by code_simp+

lemma isRetryableError_keywords:
  "isRetryableError m \<longleftrightarrow> list_ex (\<lambda>k. strIncludes (toLowerCase m) k) retryKeywords"
proof (cases "m = []")
  case True
  then show ?thesis
    using default_message_not_retryable by (simp add: retryKeywords_def toLowerCase_def)
next
  case False
  then show ?thesis
    by (simp add: isRetryableError_def retryKeywords_def Let_def)
qed

subsection \<open>The retry loop of the clothing analysis\<close>

lemma clothing_retry_step:
  "attempt < maxRetries - 1 \<Longrightarrow> prompt attempt = Throws (Error m) \<Longrightarrow> isRetryableError m \<Longrightarrow>
   analyzeClothingItemLoop prompt attempt delay tr =
   analyzeClothingItemLoop prompt (Suc attempt) (delay * 2) (tr @ [Prompt, Sleep delay])"
  by (subst analyzeClothingItemLoop.simps) (simp add: analyzeClothingItemTry_def maxRetries_def)

lemma clothing_skip:
  "k < maxRetries \<Longrightarrow> \<forall>j<k. \<exists>m. prompt j = Throws (Error m) \<and> isRetryableError m \<Longrightarrow>
   analyzeClothingItemFlow prompt = analyzeClothingItemLoop prompt k (2000 * 2 ^ k) (backoffTrace k)"
proof (induction k)
  case 0
  show ?case by (simp add: analyzeClothingItemFlow_def)
next
  case (Suc k)
  from Suc.prems obtain m where m: "prompt k = Throws (Error m)" "isRetryableError m"
    by blast
  from Suc.prems have k: "k < maxRetries - 1" by simp
  have "analyzeClothingItemFlow prompt =
        analyzeClothingItemLoop prompt k (2000 * 2 ^ k) (backoffTrace k)"
    using Suc.IH Suc.prems by simp
  also have "\<dots> = analyzeClothingItemLoop prompt (Suc k) (2000 * 2 ^ k * 2)
                    (backoffTrace k @ [Prompt, Sleep (2000 * 2 ^ k)])"
    using k m by (rule clothing_retry_step)
  finally show ?case by (simp add: mult.commute mult.left_commute)
qed

lemma clothing_returns:
  "attempt < maxRetries \<Longrightarrow> analyzeClothingItemTry (prompt attempt) = Inr output \<Longrightarrow>
   analyzeClothingItemLoop prompt attempt delay tr = (Inr output, tr @ [Prompt])"
  by (subst analyzeClothingItemLoop.simps) simp

lemma clothing_wraps:
  "attempt < maxRetries \<Longrightarrow> analyzeClothingItemTry (prompt attempt) = Inl (ZodError errors) \<Longrightarrow>
   analyzeClothingItemLoop prompt attempt delay tr =
   (Inl (ValidationFailed (clothingValidationMessage errors)), tr @ [Prompt])"
  by (subst analyzeClothingItemLoop.simps) simp

lemma clothing_rethrows:
  "attempt < maxRetries \<Longrightarrow> analyzeClothingItemTry (prompt attempt) = Inl (Error m) \<Longrightarrow>
   \<not> isRetryableError m \<Longrightarrow>
   analyzeClothingItemLoop prompt attempt delay tr = (Inl (Propagated (Error m)), tr @ [Prompt])"
  by (subst analyzeClothingItemLoop.simps) simp

lemmas clothing_unroll =
  analyzeClothingItemLoop.simps [of _ 0] analyzeClothingItemLoop.simps [of _ 1]
  analyzeClothingItemLoop.simps [of _ 2]

lemma clothing_traces:
  "snd (analyzeClothingItemFlow prompt) \<in>
     {[Prompt], [Prompt, Sleep 2000, Prompt], [Prompt, Sleep 2000, Prompt, Sleep 4000, Prompt]} \<and>
   (\<forall>m. fst (analyzeClothingItemFlow prompt) \<noteq> Inl (UnexpectedFallthrough m))"
  by (simp add: analyzeClothingItemFlow_def clothing_unroll maxRetries_def
      split: sum.splits exn.splits)

subsection \<open>The retry loop of the colour analysis\<close>

lemma color_retry_step:
  "attempt < maxRetries - 1 \<Longrightarrow> prompt attempt = Throws (Error m) \<Longrightarrow> isRetryableError m \<Longrightarrow>
   performColorAnalysisLoop prompt attempt delay tr =
   performColorAnalysisLoop prompt (Suc attempt) (delay * 2) (tr @ [Prompt, Sleep delay])"
  by (subst performColorAnalysisLoop.simps) (simp add: performColorAnalysisTry_def maxRetries_def)

lemma color_skip:
  "k < maxRetries \<Longrightarrow> \<forall>j<k. \<exists>m. prompt j = Throws (Error m) \<and> isRetryableError m \<Longrightarrow>
   performColorAnalysisFlow prompt = performColorAnalysisLoop prompt k (2000 * 2 ^ k) (backoffTrace k)"
proof (induction k)
  case 0
  show ?case by (simp add: performColorAnalysisFlow_def)
next
  case (Suc k)
  from Suc.prems obtain m where m: "prompt k = Throws (Error m)" "isRetryableError m"
    by blast
  from Suc.prems have k: "k < maxRetries - 1" by simp
  have "performColorAnalysisFlow prompt =
        performColorAnalysisLoop prompt k (2000 * 2 ^ k) (backoffTrace k)"
    using Suc.IH Suc.prems by simp
  also have "\<dots> = performColorAnalysisLoop prompt (Suc k) (2000 * 2 ^ k * 2)
                    (backoffTrace k @ [Prompt, Sleep (2000 * 2 ^ k)])"
    using k m by (rule color_retry_step)
  finally show ?case by (simp add: mult.commute mult.left_commute)
qed

lemma color_returns:
  "attempt < maxRetries \<Longrightarrow> performColorAnalysisTry (prompt attempt) = Inr output \<Longrightarrow>
   performColorAnalysisLoop prompt attempt delay tr = (Inr output, tr @ [Prompt])"
  by (subst performColorAnalysisLoop.simps) simp

lemma color_wraps:
  "attempt < maxRetries \<Longrightarrow> performColorAnalysisTry (prompt attempt) = Inl (ZodError errors) \<Longrightarrow>
   performColorAnalysisLoop prompt attempt delay tr =
   (Inl (ValidationFailed (colorValidationMessage errors)), tr @ [Prompt])"
  by (subst performColorAnalysisLoop.simps) simp

lemma color_rethrows:
  "attempt < maxRetries \<Longrightarrow> performColorAnalysisTry (prompt attempt) = Inl (Error m) \<Longrightarrow>
   \<not> isRetryableError m \<Longrightarrow>
   performColorAnalysisLoop prompt attempt delay tr = (Inl (Propagated (Error m)), tr @ [Prompt])"
  by (subst performColorAnalysisLoop.simps) simp

lemmas color_unroll =
  performColorAnalysisLoop.simps [of _ 0] performColorAnalysisLoop.simps [of _ 1]
  performColorAnalysisLoop.simps [of _ 2]

lemma color_traces:
  "snd (performColorAnalysisFlow prompt) \<in>
     {[Prompt], [Prompt, Sleep 2000, Prompt], [Prompt, Sleep 2000, Prompt, Sleep 4000, Prompt]} \<and>
   (\<forall>m. fst (performColorAnalysisFlow prompt) \<noteq> Inl (UnexpectedFallthrough m))"
  by (simp add: performColorAnalysisFlow_def color_unroll maxRetries_def
      split: sum.splits exn.splits)

lemma rate_limit_retryable: "strIncludes (toLowerCase m) ''rate limit'' \<Longrightarrow> isRetryableError m"
  by (simp add: isRetryableError_keywords retryKeywords_def)

lemma clothing_try_valid:
  "AnalyzeClothingItemOutputSchema output = [] \<Longrightarrow>
   analyzeClothingItemTry (Resolves (Some output)) = Inr output"
  by (simp add: analyzeClothingItemTry_def)

lemma clothing_try_invalid:
  "AnalyzeClothingItemOutputSchema output \<noteq> [] \<Longrightarrow>
   analyzeClothingItemTry (Resolves (Some output)) =
   Inl (ZodError (AnalyzeClothingItemOutputSchema output))"
  by (simp add: analyzeClothingItemTry_def split: list.splits)

lemma color_try_valid:
  "postProcess raw = Inr output \<Longrightarrow> PerformColorAnalysisOutputSchema output = [] \<Longrightarrow>
   performColorAnalysisTry (Resolves (Some raw)) = Inr output"
  by (simp add: performColorAnalysisTry_def)

lemma color_try_invalid:
  "postProcess raw = Inr output \<Longrightarrow> PerformColorAnalysisOutputSchema output \<noteq> [] \<Longrightarrow>
   performColorAnalysisTry (Resolves (Some raw)) =
   Inl (ZodError (PerformColorAnalysisOutputSchema output))"
  by (simp add: performColorAnalysisTry_def split: list.splits)

lemma backoffTrace_2: "backoffTrace 2 = [Prompt, Sleep 2000, Prompt, Sleep 4000]"
  by (simp add: numeral_2_eq_2)

subsection \<open>Failures that end the retry loop\<close>

text \<open>
  Claim C5. In both retrying flows, when the model call fails with an error whose message
  contains none of the retryable keywords, the flow fails after that single call, without any
  suspension, and the caller receives the very error the model call threw.
\<close>

theorem non_retryable_fails_at_once:
  "(prompt 0 = Throws (Error m) \<and>
    \<not> list_ex (\<lambda>k. strIncludes (toLowerCase m) k) retryKeywords
    \<longrightarrow> analyzeClothingItemFlow prompt = (Inl (Propagated (Error m)), [Prompt])) \<and>
   (cprompt 0 = Throws (Error c) \<and>
    \<not> list_ex (\<lambda>k. strIncludes (toLowerCase c) k) retryKeywords
    \<longrightarrow> performColorAnalysisFlow cprompt = (Inl (Propagated (Error c)), [Prompt])) \<and>
   calls [Prompt] = 1 \<and> delays [Prompt] = []"
proof (intro conjI impI)
  assume a: "prompt 0 = Throws (Error m) \<and>
    \<not> list_ex (\<lambda>k. strIncludes (toLowerCase m) k) retryKeywords"
  then have "\<not> isRetryableError m" by (simp add: isRetryableError_keywords)
  with a show "analyzeClothingItemFlow prompt = (Inl (Propagated (Error m)), [Prompt])"
    unfolding analyzeClothingItemFlow_def
    using clothing_rethrows [of 0 prompt m 2000 "[]"]
    by (simp add: maxRetries_def analyzeClothingItemTry_def)
next
  assume a: "cprompt 0 = Throws (Error c) \<and>
    \<not> list_ex (\<lambda>k. strIncludes (toLowerCase c) k) retryKeywords"
  then have "\<not> isRetryableError c" by (simp add: isRetryableError_keywords)
  with a show "performColorAnalysisFlow cprompt = (Inl (Propagated (Error c)), [Prompt])"
    unfolding performColorAnalysisFlow_def
    using color_rethrows [of 0 cprompt c 2000 "[]"]
    by (simp add: maxRetries_def performColorAnalysisTry_def)
next
  show "calls [Prompt] = 1" by (simp add: calls_def)
next
  show "delays [Prompt] = []" by simp
qed

theorem non_retryable_fails_at_once_witness:
  "analyzeClothingItemFlow (scripted 1 ''invalid argument'' (Resolves (Some blueShirt))) =
     (Inl (Propagated (Error ''invalid argument'')), [Prompt]) \<and>
   performColorAnalysisFlow (scripted 1 ''invalid argument'' (Resolves (Some springResult))) =
     (Inl (Propagated (Error ''invalid argument'')), [Prompt])"
proof -
  have nk: "\<not> list_ex (\<lambda>k. strIncludes (toLowerCase ''invalid argument'') k) retryKeywords"
    by code_simp
  show ?thesis
    using non_retryable_fails_at_once
      [of "scripted 1 ''invalid argument'' (Resolves (Some blueShirt))" "''invalid argument''"
          "scripted 1 ''invalid argument'' (Resolves (Some springResult))" "''invalid argument''"]
      nk
    by (simp add: scripted_def)
qed

subsection \<open>The shape of every trace\<close>

lemma three_traces:
  assumes "tr \<in> {[Prompt], [Prompt, Sleep 2000, Prompt],
                  [Prompt, Sleep 2000, Prompt, Sleep 4000, Prompt]}"
  shows "calls tr \<le> maxRetries \<and>
         delays tr = map (\<lambda>i. 2000 * 2 ^ i) [0..<calls tr - 1] \<and>
         (\<exists>k<maxRetries. tr = backoffTrace k @ [Prompt])"
proof -
  have b0: "[Prompt] = backoffTrace 0 @ [Prompt]" by simp
  have b1: "[Prompt, Sleep 2000, Prompt] = backoffTrace 1 @ [Prompt]" by simp
  have b2: "[Prompt, Sleep 2000, Prompt, Sleep 4000, Prompt] = backoffTrace 2 @ [Prompt]"
    by (simp add: backoffTrace_2)
  have u2: "[0..<2] = [0, Suc 0]" by (simp add: upt_rec)
  from assms consider "tr = [Prompt]" | "tr = [Prompt, Sleep 2000, Prompt]"
    | "tr = [Prompt, Sleep 2000, Prompt, Sleep 4000, Prompt]" by auto
  then show ?thesis
  proof cases
    case 1
    have "\<exists>k<maxRetries. tr = backoffTrace k @ [Prompt]"
      unfolding 1 using b0 by (intro exI [of _ 0]) (simp add: maxRetries_def)
    then show ?thesis using 1 by (simp add: calls_def maxRetries_def)
  next
    case 2
    have "\<exists>k<maxRetries. tr = backoffTrace k @ [Prompt]"
      unfolding 2 using b1 by (intro exI [of _ 1]) (simp add: maxRetries_def)
    then show ?thesis using 2 by (simp add: calls_def maxRetries_def)
  next
    case 3
    have "\<exists>k<maxRetries. tr = backoffTrace k @ [Prompt]"
      unfolding 3 using b2 by (intro exI [of _ 2]) (simp add: maxRetries_def)
    then show ?thesis using 3 by (simp add: calls_def maxRetries_def u2)
  qed
qed

text \<open>
  Claim C7. Whatever the model calls do, each retrying flow calls the model at most
  \<open>maxRetries\<close> times, the suspensions are 2000, 4000, ... (one between two consecutive
  calls, each the double of the one before), and the flow never ends in the \<open>throw\<close> that
  follows the loop: the trace is always some number \<open>k < maxRetries\<close> of retried attempts
  followed by one last call that returns or throws.
\<close>

theorem at_most_three_attempts:
  "calls (snd (analyzeClothingItemFlow prompt)) \<le> maxRetries \<and>
   delays (snd (analyzeClothingItemFlow prompt)) =
     map (\<lambda>i. 2000 * 2 ^ i) [0..<calls (snd (analyzeClothingItemFlow prompt)) - 1] \<and>
   (\<exists>k<maxRetries. snd (analyzeClothingItemFlow prompt) = backoffTrace k @ [Prompt]) \<and>
   (\<forall>m. fst (analyzeClothingItemFlow prompt) \<noteq> Inl (UnexpectedFallthrough m)) \<and>
   calls (snd (performColorAnalysisFlow cprompt)) \<le> maxRetries \<and>
   delays (snd (performColorAnalysisFlow cprompt)) =
     map (\<lambda>i. 2000 * 2 ^ i) [0..<calls (snd (performColorAnalysisFlow cprompt)) - 1] \<and>
   (\<exists>k<maxRetries. snd (performColorAnalysisFlow cprompt) = backoffTrace k @ [Prompt]) \<and>
   (\<forall>m. fst (performColorAnalysisFlow cprompt) \<noteq> Inl (UnexpectedFallthrough m))"
proof -
  have a: "snd (analyzeClothingItemFlow prompt) \<in>
     {[Prompt], [Prompt, Sleep 2000, Prompt], [Prompt, Sleep 2000, Prompt, Sleep 4000, Prompt]}"
    using clothing_traces by blast
  have b: "snd (performColorAnalysisFlow cprompt) \<in>
     {[Prompt], [Prompt, Sleep 2000, Prompt], [Prompt, Sleep 2000, Prompt, Sleep 4000, Prompt]}"
    using color_traces by blast
  show ?thesis
    using three_traces [OF a] three_traces [OF b] clothing_traces [of prompt]
      color_traces [of cprompt]
    by blast
qed

theorem at_most_three_attempts_witness:
  "calls (snd (analyzeClothingItemFlow (scripted 3 ''503 Service Unavailable'' (Resolves None)))) \<le> 3 \<and>
   delays (snd (analyzeClothingItemFlow (scripted 3 ''503 Service Unavailable'' (Resolves None)))) =
     [2000, 4000] \<and>
   fst (analyzeClothingItemFlow (scripted 3 ''503 Service Unavailable'' (Resolves None))) =
     Inl (RetriesExhausted (clothingExhaustedMessage ''503 Service Unavailable'')) \<and>
   calls (snd (performColorAnalysisFlow (scripted 3 ''503 Service Unavailable'' (Resolves None)))) \<le> 3 \<and>
   fst (performColorAnalysisFlow (scripted 3 ''503 Service Unavailable'' (Resolves None))) =
     Inl (RetriesExhausted (colorExhaustedMessage ''503 Service Unavailable''))"
proof -
  have r: "isRetryableError ''503 Service Unavailable''" by code_simp
  have c: "analyzeClothingItemFlow (scripted 3 ''503 Service Unavailable'' (Resolves None)) =
           (Inl (RetriesExhausted (clothingExhaustedMessage ''503 Service Unavailable'')),
            [Prompt, Sleep 2000, Prompt, Sleep 4000, Prompt])"
    using r
    by (simp add: analyzeClothingItemFlow_def clothing_unroll maxRetries_def scripted_def
        analyzeClothingItemTry_def)
  have d: "performColorAnalysisFlow (scripted 3 ''503 Service Unavailable'' (Resolves None)) =
           (Inl (RetriesExhausted (colorExhaustedMessage ''503 Service Unavailable'')),
            [Prompt, Sleep 2000, Prompt, Sleep 4000, Prompt])"
    using r
    by (simp add: performColorAnalysisFlow_def color_unroll maxRetries_def scripted_def
        performColorAnalysisTry_def)
  show ?thesis
    using at_most_three_attempts
      [of "scripted 3 ''503 Service Unavailable'' (Resolves None)"
          "scripted 3 ''503 Service Unavailable'' (Resolves None)"]
    by (simp add: c d maxRetries_def)
qed

subsection \<open>The post-processing pass\<close>

lemma sentinel_includes: "strIncludes (toLowerCase sentinel) ''niet te bepalen''"
  by code_simp

lemma fallbackPalette_includes: "strIncludes (toLowerCase fallbackPalette) ''niet te bepalen''"
  by code_simp

lemma someKeyword_nonempty: "someKeyword d \<Longrightarrow> d \<noteq> []"
proof
  assume "someKeyword d" "d = []"
  then have "someKeyword []" by simp
  moreover have "\<not> someKeyword []" by code_simp
  ultimately show False by simp
qed

lemma fixDescription_idem: "fixDescription (fixDescription d) = fixDescription d"
  by (simp add: fixDescription_def split: option.splits)

lemma fixPalette_idem: "fixPalette (fixPalette d) = fixPalette d"
  by (simp add: fixPalette_def split: option.splits)

lemma fixCharacteristics_idem:
  "fixCharacteristics c = Inr c' \<Longrightarrow> fixCharacteristics c' = Inr c'"
  by (auto simp: fixCharacteristics_def sentinelCharacteristics_def split: option.splits if_splits)

lemma postProcess_idem: "postProcess raw = Inr r \<Longrightarrow> postProcess r = Inr r"
proof (cases "isUnanalyzable raw")
  case True
  assume pp: "postProcess raw = Inr r"
  with True obtain ch where ch: "fixCharacteristics (characteristics raw) = Inr ch"
    and r: "r = raw\<lparr>recommendedColors := Some [], avoidColors := Some [],
                 analysisDescription := fixDescription (analysisDescription raw),
                 characteristics := ch,
                 paletteDescription := fixPalette (paletteDescription raw)\<rparr>"
    by (auto simp: postProcess_def split: sum.splits)
  have u: "isUnanalyzable r" using True r by (simp add: isUnanalyzable_def)
  have "fixCharacteristics ch = Inr ch" using ch by (rule fixCharacteristics_idem)
  then show ?thesis
    using u r by (simp add: postProcess_def fixDescription_idem fixPalette_idem)
next
  case False
  assume pp: "postProcess raw = Inr r"
  with False have "r = raw" by (auto simp: postProcess_def split: option.splits)
  with pp show ?thesis by simp
qed

text \<open>
  Claim C9. The post-processing pass returns unchanged every result that passes the schema
  and is already normalized: one with a determined season, or one with an undetermined season,
  empty colour lists, sentinel characteristics, the sentinel as palette description and an
  explanation that contains an undetermined-keyword. More generally the pass is idempotent:
  whatever it returns, it returns again when applied to it.
\<close>

theorem postProcess_fixes_normalized:
  "(PerformColorAnalysisOutputSchema r = [] \<and>
    (\<not> isUnanalyzable r \<or>
     (recommendedColors r = Some [] \<and> avoidColors r = Some [] \<and>
      characteristics r = Some sentinelCharacteristics \<and>
      paletteDescription r = Some sentinel \<and>
      (\<exists>d. analysisDescription r = Some d \<and> someKeyword d)))
    \<longrightarrow> postProcess r = Inr r) \<and>
   (postProcess raw = Inr n \<longrightarrow> postProcess n = Inr n)"
proof (intro conjI impI)
  assume a: "PerformColorAnalysisOutputSchema r = [] \<and>
    (\<not> isUnanalyzable r \<or>
     (recommendedColors r = Some [] \<and> avoidColors r = Some [] \<and>
      characteristics r = Some sentinelCharacteristics \<and>
      paletteDescription r = Some sentinel \<and>
      (\<exists>d. analysisDescription r = Some d \<and> someKeyword d)))"
  show "postProcess r = Inr r"
  proof (cases "isUnanalyzable r")
    case False
    from a have "zColorArray [Key ''recommendedColors''] (recommendedColors r) = []"
      and "zColorArray [Key ''avoidColors''] (avoidColors r) = []"
      by (simp_all add: PerformColorAnalysisOutputSchema_def)
    then have "recommendedColors r \<noteq> None" "avoidColors r \<noteq> None"
      by (auto simp: zColorArray_def split: option.splits)
    with False show ?thesis by (auto simp: postProcess_def)
  next
    case True
    with a obtain d where f: "recommendedColors r = Some []" "avoidColors r = Some []"
      "characteristics r = Some sentinelCharacteristics" "paletteDescription r = Some sentinel"
      "analysisDescription r = Some d" "someKeyword d"
      by blast
    have c: "fixCharacteristics (characteristics r) = Inr (Some sentinelCharacteristics)"
      using f(3) by (simp add: fixCharacteristics_def sentinelCharacteristics_def)
    have p: "fixPalette (paletteDescription r) = Some sentinel"
      using f(4) sentinel_includes someKeyword_nonempty
      by (auto simp: fixPalette_def sentinel_def)
    have e: "fixDescription (analysisDescription r) = Some d"
      using f(5,6) someKeyword_nonempty by (simp add: fixDescription_def)
    have "r\<lparr>recommendedColors := Some [], avoidColors := Some [],
            analysisDescription := Some d,
            characteristics := Some sentinelCharacteristics,
            paletteDescription := Some sentinel\<rparr> = r"
      using f by (intro PerformColorAnalysisOutput.equality) simp_all
    with True c p e show ?thesis by (simp add: postProcess_def)
  qed
next
  assume "postProcess raw = Inr n"
  then show "postProcess n = Inr n" by (rule postProcess_idem)
qed

theorem postProcess_fixes_normalized_witness:
  "postProcess springResult = Inr springResult \<and>
   postProcess normalizedUndetermined = Inr normalizedUndetermined \<and>
   postProcess strayNormalized = Inr strayNormalized"
proof -
  have v1: "PerformColorAnalysisOutputSchema springResult = []" by code_simp
  have d1: "\<not> isUnanalyzable springResult" by code_simp
  have v2: "PerformColorAnalysisOutputSchema normalizedUndetermined = []" by code_simp
  have k: "someKeyword ''Er is geen gezicht zichtbaar op de foto.''" by code_simp
  have f: "recommendedColors normalizedUndetermined = Some []"
    "avoidColors normalizedUndetermined = Some []"
    "characteristics normalizedUndetermined = Some sentinelCharacteristics"
    "paletteDescription normalizedUndetermined = Some sentinel"
    "analysisDescription normalizedUndetermined = Some ''Er is geen gezicht zichtbaar op de foto.''"
    by (simp_all add: normalizedUndetermined_def)
  have pp: "postProcess strayUndetermined = Inr strayNormalized" by code_simp
  have a: "postProcess springResult = Inr springResult"
    using postProcess_fixes_normalized [of springResult strayUndetermined strayNormalized] v1 d1
    by blast
  have b: "postProcess normalizedUndetermined = Inr normalizedUndetermined"
    using postProcess_fixes_normalized [of normalizedUndetermined strayUndetermined strayNormalized]
      v2 f k
    by blast
  have c: "postProcess strayNormalized = Inr strayNormalized"
    using postProcess_fixes_normalized [of springResult strayUndetermined strayNormalized] pp
    by blast
  from a b c show ?thesis by blast
qed

subsection \<open>Results of the colour analysis\<close>

lemma color_success_origin:
  "performColorAnalysisFlow prompt = (Inr result, tr) \<Longrightarrow>
   0 < calls tr \<and> performColorAnalysisTry (prompt (calls tr - 1)) = Inr result"
  by (auto simp: performColorAnalysisFlow_def color_unroll maxRetries_def calls_def
      split: sum.splits exn.splits if_splits)

lemma color_try_origin:
  "performColorAnalysisTry r = Inr result \<Longrightarrow>
   \<exists>raw. r = Resolves (Some raw) \<and> postProcess raw = Inr result \<and>
         PerformColorAnalysisOutputSchema result = []"
  by (auto simp: performColorAnalysisTry_def
      split: outcome.splits option.splits sum.splits list.splits)

lemma fixPalette_shape:
  "\<exists>p. fixPalette d = Some p \<and> strIncludes (toLowerCase p) ''niet te bepalen''"
  using fallbackPalette_includes by (auto simp: fixPalette_def split: option.splits)

lemma fixCharacteristics_shape:
  "fixCharacteristics c = Inr c' \<Longrightarrow>
   \<exists>ch s. c' = Some ch \<and> skinTone ch = Some s \<and> strIncludes (toLowerCase s) ''niet te bepalen''"
  using sentinel_includes
  by (auto simp: fixCharacteristics_def sentinelCharacteristics_def split: option.splits if_splits)

lemma postProcess_unanalyzable:
  assumes "postProcess raw = Inr result" "isUnanalyzable raw"
  shows "recommendedColors result = Some [] \<and> avoidColors result = Some [] \<and>
     (\<exists>ch s. characteristics result = Some ch \<and> skinTone ch = Some s \<and>
             strIncludes (toLowerCase s) ''niet te bepalen'') \<and>
     (\<exists>p. paletteDescription result = Some p \<and> strIncludes (toLowerCase p) ''niet te bepalen'') \<and>
     fixCharacteristics (characteristics raw) = Inr (characteristics result) \<and>
     paletteDescription result = fixPalette (paletteDescription raw)"
proof -
  from assms obtain ch where ch: "fixCharacteristics (characteristics raw) = Inr ch"
    and r: "result = raw\<lparr>recommendedColors := Some [], avoidColors := Some [],
                 analysisDescription := fixDescription (analysisDescription raw),
                 characteristics := ch,
                 paletteDescription := fixPalette (paletteDescription raw)\<rparr>"
    by (auto simp: postProcess_def split: sum.splits)
  show ?thesis
    using fixCharacteristics_shape [OF ch] fixPalette_shape [of "paletteDescription raw"] ch
    by (simp add: r)
qed

text \<open>
  Claim C2, as the code has it. Every result the colour analysis returns comes from the
  answer of its last model call; when that answer's season matches an undetermined-keyword,
  the result has both colour lists empty, a skin tone and a palette description that contain
  \<open>niet te bepalen\<close> (in any letter case), all three characteristics equal to the sentinel
  whenever the answer had no characteristics or a skin tone without the sentinel, and the
  fixed palette sentence whenever the answer had no palette description or one without the
  sentinel.
\<close>

theorem undetermined_season_is_normalized:
  "performColorAnalysisFlow prompt = (Inr result, tr) \<longrightarrow>
   (\<exists>raw. prompt (calls tr - 1) = Resolves (Some raw) \<and>
      (isUnanalyzable raw \<longrightarrow>
         recommendedColors result = Some [] \<and> avoidColors result = Some [] \<and>
         (\<exists>ch s. characteristics result = Some ch \<and> skinTone ch = Some s \<and>
                 strIncludes (toLowerCase s) ''niet te bepalen'') \<and>
         (\<exists>p. paletteDescription result = Some p \<and>
              strIncludes (toLowerCase p) ''niet te bepalen'') \<and>
         ((characteristics raw = None \<or>
           (\<exists>ch s. characteristics raw = Some ch \<and> skinTone ch = Some s \<and>
                   \<not> strIncludes (toLowerCase s) ''niet te bepalen''))
          \<longrightarrow> characteristics result = Some sentinelCharacteristics) \<and>
         ((falsy (paletteDescription raw) \<or>
           (\<exists>p. paletteDescription raw = Some p \<and>
                \<not> strIncludes (toLowerCase p) ''niet te bepalen''))
          \<longrightarrow> paletteDescription result = Some fallbackPalette)))"
proof
  assume a: "performColorAnalysisFlow prompt = (Inr result, tr)"
  then have "performColorAnalysisTry (prompt (calls tr - 1)) = Inr result"
    using color_success_origin by blast
  then obtain raw where raw: "prompt (calls tr - 1) = Resolves (Some raw)"
    and pp: "postProcess raw = Inr result"
    using color_try_origin by blast
  have "isUnanalyzable raw \<longrightarrow>
         recommendedColors result = Some [] \<and> avoidColors result = Some [] \<and>
         (\<exists>ch s. characteristics result = Some ch \<and> skinTone ch = Some s \<and>
                 strIncludes (toLowerCase s) ''niet te bepalen'') \<and>
         (\<exists>p. paletteDescription result = Some p \<and>
              strIncludes (toLowerCase p) ''niet te bepalen'') \<and>
         ((characteristics raw = None \<or>
           (\<exists>ch s. characteristics raw = Some ch \<and> skinTone ch = Some s \<and>
                   \<not> strIncludes (toLowerCase s) ''niet te bepalen''))
          \<longrightarrow> characteristics result = Some sentinelCharacteristics) \<and>
         ((falsy (paletteDescription raw) \<or>
           (\<exists>p. paletteDescription raw = Some p \<and>
                \<not> strIncludes (toLowerCase p) ''niet te bepalen''))
          \<longrightarrow> paletteDescription result = Some fallbackPalette)"
  proof
    assume u: "isUnanalyzable raw"
    note s = postProcess_unanalyzable [OF pp u]
    have c: "(characteristics raw = None \<or>
           (\<exists>ch s. characteristics raw = Some ch \<and> skinTone ch = Some s \<and>
                   \<not> strIncludes (toLowerCase s) ''niet te bepalen''))
          \<longrightarrow> characteristics result = Some sentinelCharacteristics"
      using s by (auto simp: fixCharacteristics_def)
    have p: "(falsy (paletteDescription raw) \<or>
           (\<exists>p. paletteDescription raw = Some p \<and>
                \<not> strIncludes (toLowerCase p) ''niet te bepalen''))
          \<longrightarrow> paletteDescription result = Some fallbackPalette"
      using s by (auto simp: fixPalette_def falsy_def split: option.splits)
    from s c p show "recommendedColors result = Some [] \<and> avoidColors result = Some [] \<and>
         (\<exists>ch s. characteristics result = Some ch \<and> skinTone ch = Some s \<and>
                 strIncludes (toLowerCase s) ''niet te bepalen'') \<and>
         (\<exists>p. paletteDescription result = Some p \<and>
              strIncludes (toLowerCase p) ''niet te bepalen'') \<and>
         ((characteristics raw = None \<or>
           (\<exists>ch s. characteristics raw = Some ch \<and> skinTone ch = Some s \<and>
                   \<not> strIncludes (toLowerCase s) ''niet te bepalen''))
          \<longrightarrow> characteristics result = Some sentinelCharacteristics) \<and>
         ((falsy (paletteDescription raw) \<or>
           (\<exists>p. paletteDescription raw = Some p \<and>
                \<not> strIncludes (toLowerCase p) ''niet te bepalen''))
          \<longrightarrow> paletteDescription result = Some fallbackPalette)"
      by blast
  qed
  with raw show "\<exists>raw. prompt (calls tr - 1) = Resolves (Some raw) \<and>
      (isUnanalyzable raw \<longrightarrow>
         recommendedColors result = Some [] \<and> avoidColors result = Some [] \<and>
         (\<exists>ch s. characteristics result = Some ch \<and> skinTone ch = Some s \<and>
                 strIncludes (toLowerCase s) ''niet te bepalen'') \<and>
         (\<exists>p. paletteDescription result = Some p \<and>
              strIncludes (toLowerCase p) ''niet te bepalen'') \<and>
         ((characteristics raw = None \<or>
           (\<exists>ch s. characteristics raw = Some ch \<and> skinTone ch = Some s \<and>
                   \<not> strIncludes (toLowerCase s) ''niet te bepalen''))
          \<longrightarrow> characteristics result = Some sentinelCharacteristics) \<and>
         ((falsy (paletteDescription raw) \<or>
           (\<exists>p. paletteDescription raw = Some p \<and>
                \<not> strIncludes (toLowerCase p) ''niet te bepalen''))
          \<longrightarrow> paletteDescription result = Some fallbackPalette))"
    by blast
qed

lemma stray_flow:
  "performColorAnalysisFlow (scripted 0 [] (Resolves (Some strayUndetermined))) =
   (Inr strayNormalized, [Prompt])"
proof -
  have pp: "postProcess strayUndetermined = Inr strayNormalized" by code_simp
  have v: "PerformColorAnalysisOutputSchema strayNormalized = []" by code_simp
  have "performColorAnalysisTry (scripted 0 [] (Resolves (Some strayUndetermined)) 0) =
        Inr strayNormalized"
    using pp v by (simp add: scripted_def color_try_valid)
  then show ?thesis
    unfolding performColorAnalysisFlow_def
    using color_returns [of 0 "scripted 0 [] (Resolves (Some strayUndetermined))" strayNormalized
        2000 "[]"]
    by (simp add: maxRetries_def)
qed

theorem undetermined_season_is_normalized_witness:
  "isUnanalyzable strayUndetermined \<and>
   performColorAnalysisFlow (scripted 0 [] (Resolves (Some strayUndetermined))) =
     (Inr strayNormalized, [Prompt]) \<and>
   recommendedColors strayNormalized = Some [] \<and> avoidColors strayNormalized = Some [] \<and>
   characteristics strayNormalized = Some sentinelCharacteristics \<and>
   paletteDescription strayNormalized = Some fallbackPalette"
proof -
  have u: "isUnanalyzable strayUndetermined" by code_simp
  have c: "calls [Prompt] - 1 = 0" by (simp add: calls_def)
  have n: "\<not> strIncludes (toLowerCase ''Warm met gouden ondertoon'') ''niet te bepalen''"
          "\<not> strIncludes (toLowerCase ''Heldere, warme kleuren'') ''niet te bepalen''"
    by code_simp+
  have raw: "characteristics strayUndetermined =
               Some \<lparr>skinTone = Some ''Warm met gouden ondertoon'', hairColor = Some ''Goudblond'',
                     eyeColor = Some ''Helderblauw''\<rparr>"
            "paletteDescription strayUndetermined = Some ''Heldere, warme kleuren''"
    by (simp_all add: strayUndetermined_def springResult_def)
  show ?thesis
    using undetermined_season_is_normalized
      [of "scripted 0 [] (Resolves (Some strayUndetermined))" strayNormalized "[Prompt]"]
      stray_flow u n raw
    by (simp add: c scripted_def)
qed

text \<open>
  Claim C2 as stated fails: for an answer with an undetermined season, real descriptors and a
  real palette, the returned palette description is the fixed sentence, not the sentinel.
\<close>

theorem undetermined_palette_counterexample:
  "isUnanalyzable strayUndetermined \<and>
   performColorAnalysisFlow (scripted 0 [] (Resolves (Some strayUndetermined))) =
     (Inr strayNormalized, [Prompt]) \<and>
   paletteDescription strayNormalized \<noteq> Some ''Niet te bepalen''"
proof -
  have u: "isUnanalyzable strayUndetermined" by code_simp
  have p: "paletteDescription strayNormalized \<noteq> Some ''Niet te bepalen''"
    by (simp add: strayNormalized_def)
  from u p stray_flow show ?thesis by blast
qed

text \<open>
  Claim C3 fails on the code: the schema declares no minimum length for the two colour
  arrays, so a determined season with one recommended colour and no colour to avoid passes
  \<open>parse\<close> and is returned.
\<close>

theorem underfilled_colors_are_returned:
  "\<not> isUnanalyzable underfilledSpring \<and>
   recommendedColors underfilledSpring = Some [warmOrange] \<and>
   avoidColors underfilledSpring = Some [] \<and>
   performColorAnalysisFlow (scripted 0 [] (Resolves (Some underfilledSpring))) =
     (Inr underfilledSpring, [Prompt])"
proof -
  have u: "\<not> isUnanalyzable underfilledSpring" by code_simp
  have f: "recommendedColors underfilledSpring = Some [warmOrange]"
          "avoidColors underfilledSpring = Some []"
    by (simp_all add: underfilledSpring_def)
  have pp: "postProcess underfilledSpring = Inr underfilledSpring"
    using u f by (simp add: postProcess_def)
  have v: "PerformColorAnalysisOutputSchema underfilledSpring = []" by code_simp
  have "performColorAnalysisTry (scripted 0 [] (Resolves (Some underfilledSpring)) 0) =
        Inr underfilledSpring"
    using pp v by (simp add: scripted_def color_try_valid)
  then have "performColorAnalysisFlow (scripted 0 [] (Resolves (Some underfilledSpring))) =
             (Inr underfilledSpring, [Prompt])"
    unfolding performColorAnalysisFlow_def
    using color_returns [of 0 "scripted 0 [] (Resolves (Some underfilledSpring))"
        underfilledSpring 2000 "[]"]
    by (simp add: maxRetries_def)
  with u f show ?thesis by blast
qed

subsection \<open>The flows without a retry loop\<close>

text \<open>
  Claim C8. When the text call of the outfit suggestion answers with nothing, or with an
  output whose \<open>outfitSuggestion\<close>, \<open>suggestedShoes\<close> or \<open>reasoning\<close> is absent or empty,
  the flow fails with its own error and its trace holds the text call only: the image
  generation is never invoked, whatever it would have answered.
\<close>

theorem incomplete_text_skips_image_call:
  "textOutput = None \<or>
   (\<exists>t. textOutput = Some t \<and>
        (falsy (outfitSuggestion t) \<or> falsy (suggestedShoes t) \<or> falsy (reasoning t)))
   \<Longrightarrow> generateOutfitSuggestionFlow (Resolves textOutput) imageResult =
         (Inl (Raised incompleteTextMessage), [Prompt]) \<and>
       generatedWith (snd (generateOutfitSuggestionFlow (Resolves textOutput) imageResult)) = []"
proof -
  assume "textOutput = None \<or>
   (\<exists>t. textOutput = Some t \<and>
        (falsy (outfitSuggestion t) \<or> falsy (suggestedShoes t) \<or> falsy (reasoning t)))"
  then consider "textOutput = None"
    | t where "textOutput = Some t"
        "falsy (outfitSuggestion t) \<or> falsy (suggestedShoes t) \<or> falsy (reasoning t)"
    by blast
  then have "generateOutfitSuggestionFlow (Resolves textOutput) imageResult =
             (Inl (Raised incompleteTextMessage), [Prompt])"
  proof cases
    case 1
    then show ?thesis by (simp add: generateOutfitSuggestionFlow_def)
  next
    case 2
    then show ?thesis by (simp add: generateOutfitSuggestionFlow_def)
  qed
  then show ?thesis by simp
qed

theorem incomplete_text_skips_image_call_witness:
  "generateOutfitSuggestionFlow (Resolves (Some jeansNoShoes))
     (Resolves (Some ''data:image/png;base64,AAAA'')) =
   (Inl (Raised incompleteTextMessage), [Prompt])"
proof -
  have "falsy (suggestedShoes jeansNoShoes)" by (simp add: jeansNoShoes_def falsy_def)
  then show ?thesis
    using incomplete_text_skips_image_call
      [of "Some jeansNoShoes" "Resolves (Some ''data:image/png;base64,AAAA'')"]
    by simp
qed










lemma clothing_first_retry:
  assumes "prompt 0 = Throws (Error m)" "isRetryableError m"
  shows "take 3 (snd (analyzeClothingItemFlow prompt)) = [Prompt, Sleep 2000, Prompt]"
  using assms
  by (simp add: analyzeClothingItemFlow_def clothing_unroll maxRetries_def
      analyzeClothingItemTry_def [of "Throws (Error m)"] split: sum.splits exn.splits)

lemma color_first_retry:
  assumes "prompt 0 = Throws (Error m)" "isRetryableError m"
  shows "take 3 (snd (performColorAnalysisFlow prompt)) = [Prompt, Sleep 2000, Prompt]"
  using assms
  by (simp add: performColorAnalysisFlow_def color_unroll maxRetries_def
      performColorAnalysisTry_def [of "Throws (Error m)"] split: sum.splits exn.splits)

text \<open>
  Claim C1, as the code has it. Only the clothing analysis and the colour analysis call the
  model inside the retry loop: there a first failure whose message contains a retryable
  keyword is followed by a suspension of 2000 and a second call. The outfit inspiration, the
  outfit suggestion (both of its calls) and the outfit visualization call the model outside
  any \<open>try\<close>: whatever the call throws leaves the flow at once, after that single call.
\<close>

theorem retry_only_in_two_flows:
  "(prompt 0 = Throws (Error m) \<and> list_ex (\<lambda>k. strIncludes (toLowerCase m) k) retryKeywords
    \<longrightarrow> take 3 (snd (analyzeClothingItemFlow prompt)) = [Prompt, Sleep 2000, Prompt]) \<and>
   (cprompt 0 = Throws (Error m) \<and> list_ex (\<lambda>k. strIncludes (toLowerCase m) k) retryKeywords
    \<longrightarrow> take 3 (snd (performColorAnalysisFlow cprompt)) = [Prompt, Sleep 2000, Prompt]) \<and>
   generateOutfitInspirationFlow (Throws e) = (Inl (Propagated e), [Prompt]) \<and>
   generateOutfitSuggestionFlow (Throws e) imageResult = (Inl (Propagated e), [Prompt]) \<and>
   (\<not> falsy (outfitSuggestion t) \<and> \<not> falsy (suggestedShoes t) \<and> \<not> falsy (reasoning t)
    \<longrightarrow> generateOutfitSuggestionFlow (Resolves (Some t)) (Throws e) =
          (Inl (Propagated e), [Prompt, Generate [Text (imagePromptText t)]])) \<and>
   generateOutfitVisualizationFlow (Throws e) input =
     (Inl (Propagated e), [Generate (promptSegments input)])"
proof (intro conjI impI)
  assume "prompt 0 = Throws (Error m) \<and> list_ex (\<lambda>k. strIncludes (toLowerCase m) k) retryKeywords"
  then show "take 3 (snd (analyzeClothingItemFlow prompt)) = [Prompt, Sleep 2000, Prompt]"
    using clothing_first_retry [of prompt m] by (simp add: isRetryableError_keywords)
next
  assume "cprompt 0 = Throws (Error m) \<and> list_ex (\<lambda>k. strIncludes (toLowerCase m) k) retryKeywords"
  then show "take 3 (snd (performColorAnalysisFlow cprompt)) = [Prompt, Sleep 2000, Prompt]"
    using color_first_retry [of cprompt m] by (simp add: isRetryableError_keywords)
next
  show "generateOutfitInspirationFlow (Throws e) = (Inl (Propagated e), [Prompt])"
    by (simp add: generateOutfitInspirationFlow_def)
next
  show "generateOutfitSuggestionFlow (Throws e) imageResult = (Inl (Propagated e), [Prompt])"
    by (simp add: generateOutfitSuggestionFlow_def)
next
  assume "\<not> falsy (outfitSuggestion t) \<and> \<not> falsy (suggestedShoes t) \<and> \<not> falsy (reasoning t)"
  then show "generateOutfitSuggestionFlow (Resolves (Some t)) (Throws e) =
          (Inl (Propagated e), [Prompt, Generate [Text (imagePromptText t)]])"
    by (simp add: generateOutfitSuggestionFlow_def)
next
  show "generateOutfitVisualizationFlow (Throws e) input =
     (Inl (Propagated e), [Generate (promptSegments input)])"
    by (simp add: generateOutfitVisualizationFlow_def)
qed

theorem retry_only_in_two_flows_witness:
  "take 3 (snd (analyzeClothingItemFlow (scripted 1 ''429 Rate limit exceeded'' (Resolves (Some blueShirt)))))
     = [Prompt, Sleep 2000, Prompt] \<and>
   take 3 (snd (performColorAnalysisFlow (scripted 1 ''429 Rate limit exceeded'' (Resolves (Some springResult)))))
     = [Prompt, Sleep 2000, Prompt] \<and>
   generateOutfitSuggestionFlow (Resolves (Some (jeansNoShoes\<lparr>suggestedShoes := Some ''Witte sneakers''\<rparr>)))
       (Throws (Error ''429 Rate limit exceeded'')) =
     (Inl (Propagated (Error ''429 Rate limit exceeded'')),
      [Prompt, Generate [Text (imagePromptText (jeansNoShoes\<lparr>suggestedShoes := Some ''Witte sneakers''\<rparr>))]])"
proof -
  have k: "list_ex (\<lambda>k. strIncludes (toLowerCase ''429 Rate limit exceeded'') k) retryKeywords"
    by code_simp
  have f: "\<not> falsy (outfitSuggestion (jeansNoShoes\<lparr>suggestedShoes := Some ''Witte sneakers''\<rparr>))"
          "\<not> falsy (suggestedShoes (jeansNoShoes\<lparr>suggestedShoes := Some ''Witte sneakers''\<rparr>))"
          "\<not> falsy (reasoning (jeansNoShoes\<lparr>suggestedShoes := Some ''Witte sneakers''\<rparr>))"
    by (simp_all add: jeansNoShoes_def falsy_def)
  show ?thesis
    using retry_only_in_two_flows
      [of "scripted 1 ''429 Rate limit exceeded'' (Resolves (Some blueShirt))"
          "''429 Rate limit exceeded''"
          "scripted 1 ''429 Rate limit exceeded'' (Resolves (Some springResult))"
          "Error ''429 Rate limit exceeded''" "Resolves None"
          "jeansNoShoes\<lparr>suggestedShoes := Some ''Witte sneakers''\<rparr>" denimLook]
      k f
    by (simp add: scripted_def)
qed

text \<open>
  Claim C1 as stated fails: the outfit inspiration hands a rate-limit failure of its model
  call to the caller after the first and only attempt.
\<close>

theorem inspiration_no_retry_counterexample:
  "isRetryableError ''429 Rate limit exceeded'' \<and>
   generateOutfitInspirationFlow (Throws (Error ''429 Rate limit exceeded'')) =
     (Inl (Propagated (Error ''429 Rate limit exceeded'')), [Prompt])"
proof -
  have "isRetryableError ''429 Rate limit exceeded''" by code_simp
  then show ?thesis by (simp add: generateOutfitInspirationFlow_def)
qed

subsection \<open>What the colour analysis does with the answer it validates\<close>

lemma zString_Nil: "zString p v = [] \<longleftrightarrow> v \<noteq> None"
  by (simp add: zString_def split: option.splits)

lemma postProcess_determined:
  assumes "\<not> isUnanalyzable raw" "recommendedColors raw \<noteq> None" "avoidColors raw \<noteq> None"
  shows "postProcess raw = Inr raw"
  using assms by (auto simp: postProcess_def)

lemma valid_has_arrays:
  assumes "PerformColorAnalysisOutputSchema raw = []"
  shows "recommendedColors raw \<noteq> None" "avoidColors raw \<noteq> None"
proof -
  from assms have "zColorArray [Key ''recommendedColors''] (recommendedColors raw) = []"
    and "zColorArray [Key ''avoidColors''] (avoidColors raw) = []"
    by (simp_all add: PerformColorAnalysisOutputSchema_def)
  then show "recommendedColors raw \<noteq> None" "avoidColors raw \<noteq> None"
    by (auto simp: zColorArray_def split: option.splits)
qed

lemma postProcess_unanalyzable_eq:
  assumes "isUnanalyzable raw" "fixCharacteristics (characteristics raw) = Inr ch"
  shows "postProcess raw =
         Inr (raw\<lparr>recommendedColors := Some [], avoidColors := Some [],
                   analysisDescription := fixDescription (analysisDescription raw),
                   characteristics := ch,
                   paletteDescription := fixPalette (paletteDescription raw)\<rparr>)"
  using assms by (simp add: postProcess_def)

lemma fixDescription_Some: "fixDescription d \<noteq> None"
  by (simp add: fixDescription_def split: option.splits)

lemma fixPalette_Some: "fixPalette d \<noteq> None"
  by (simp add: fixPalette_def split: option.splits)

lemma valid_fixCharacteristics:
  assumes "CharacteristicsSchema p c = []"
  shows "\<exists>ch. fixCharacteristics c = Inr ch \<and> CharacteristicsSchema p ch = []"
proof -
  from assms obtain x where c: "c = Some x"
    by (auto simp: CharacteristicsSchema_def split: option.splits)
  with assms have f: "skinTone x \<noteq> None" "hairColor x \<noteq> None" "eyeColor x \<noteq> None"
    by (simp_all add: CharacteristicsSchema_def zString_Nil)
  then obtain s where s: "skinTone x = Some s" by blast
  have v: "CharacteristicsSchema p (Some sentinelCharacteristics) = []"
    by (simp add: CharacteristicsSchema_def sentinelCharacteristics_def zString_Nil)
  show ?thesis
  proof (cases "strIncludes (toLowerCase s) ''niet te bepalen''")
    case True
    then have "fixCharacteristics c = Inr (Some x)"
      using c s by (simp add: fixCharacteristics_def)
    then show ?thesis using assms c by blast
  next
    case False
    then have "fixCharacteristics c = Inr (Some sentinelCharacteristics)"
      using c s by (simp add: fixCharacteristics_def)
    then show ?thesis using v by blast
  qed
qed

lemma valid_unanalyzable:
  assumes "PerformColorAnalysisOutputSchema raw = []" "isUnanalyzable raw"
  shows "\<exists>ch. fixCharacteristics (characteristics raw) = Inr ch \<and>
     PerformColorAnalysisOutputSchema
       (raw\<lparr>recommendedColors := Some [], avoidColors := Some [],
             analysisDescription := fixDescription (analysisDescription raw),
             characteristics := ch,
             paletteDescription := fixPalette (paletteDescription raw)\<rparr>) = []"
proof -
  from assms(1) have s: "seasonType raw \<noteq> None"
    and c: "CharacteristicsSchema [Key ''characteristics''] (characteristics raw) = []"
    by (simp_all add: PerformColorAnalysisOutputSchema_def zString_Nil)
  from c obtain ch where ch: "fixCharacteristics (characteristics raw) = Inr ch"
    "CharacteristicsSchema [Key ''characteristics''] ch = []"
    using valid_fixCharacteristics by blast
  have "PerformColorAnalysisOutputSchema
       (raw\<lparr>recommendedColors := Some [], avoidColors := Some [],
             analysisDescription := fixDescription (analysisDescription raw),
             characteristics := ch,
             paletteDescription := fixPalette (paletteDescription raw)\<rparr>) = []"
    using s ch(2) fixDescription_Some fixPalette_Some
    by (simp add: PerformColorAnalysisOutputSchema_def zString_Nil zColorArray_def)
  with ch(1) show ?thesis by blast
qed

lemma color_retried_twice:
  assumes "prompt 0 = Throws (Error c0)" "strIncludes (toLowerCase c0) ''rate limit''"
    "prompt 1 = Throws (Error c1)" "strIncludes (toLowerCase c1) ''rate limit''"
    "prompt 2 = Resolves (Some raw)" "postProcess raw = Inr result"
    "PerformColorAnalysisOutputSchema result = []"
  shows "performColorAnalysisFlow prompt =
         (Inr result, [Prompt, Sleep 2000, Prompt, Sleep 4000, Prompt])"
proof -
  have "\<forall>j<2. \<exists>m. prompt j = Throws (Error m) \<and> isRetryableError m"
    using assms rate_limit_retryable by (auto simp: less_2_cases_iff)
  then have "performColorAnalysisFlow prompt =
             performColorAnalysisLoop prompt 2 (2000 * 2 ^ 2) (backoffTrace 2)"
    by (intro color_skip) (simp_all add: maxRetries_def)
  also have "\<dots> = (Inr result, backoffTrace 2 @ [Prompt])"
    using assms by (intro color_returns) (simp_all add: maxRetries_def color_try_valid)
  finally show ?thesis by (simp add: backoffTrace_2)
qed

lemma clothing_retried_twice:
  assumes "prompt 0 = Throws (Error m0)" "strIncludes (toLowerCase m0) ''rate limit''"
    "prompt 1 = Throws (Error m1)" "strIncludes (toLowerCase m1) ''rate limit''"
    "prompt 2 = Resolves (Some output)" "AnalyzeClothingItemOutputSchema output = []"
  shows "analyzeClothingItemFlow prompt =
         (Inr output, [Prompt, Sleep 2000, Prompt, Sleep 4000, Prompt])"
proof -
  have "\<forall>j<2. \<exists>m. prompt j = Throws (Error m) \<and> isRetryableError m"
    using assms rate_limit_retryable by (auto simp: less_2_cases_iff)
  then have "analyzeClothingItemFlow prompt =
             analyzeClothingItemLoop prompt 2 (2000 * 2 ^ 2) (backoffTrace 2)"
    by (intro clothing_skip) (simp_all add: maxRetries_def)
  also have "\<dots> = (Inr output, backoffTrace 2 @ [Prompt])"
    using assms by (intro clothing_returns) (simp_all add: maxRetries_def clothing_try_valid)
  finally show ?thesis by (simp add: backoffTrace_2)
qed

text \<open>
  Claim C4, as the code has it. In both retrying flows, when the first two model calls fail
  with a message that contains \<open>rate limit\<close> (in any letter case; \<open>strIncludes_toLowerCase\<close>
  covers the literal keyword) and the third call answers with an output that passes the
  schema, the model has been called exactly three times and the two suspensions last 2000 and
  then 4000. The clothing analysis returns that answer. The colour analysis returns that
  answer when its season is determined; when its season matches an undetermined-keyword it
  returns the answer with both colour lists emptied and with explanation, characteristics and
  palette description as \<open>fixDescription\<close>, \<open>fixCharacteristics\<close> and \<open>fixPalette\<close> leave them.
\<close>

theorem retry_twice_then_success:
  "(prompt 0 = Throws (Error m0) \<and> strIncludes (toLowerCase m0) ''rate limit'' \<and>
    prompt 1 = Throws (Error m1) \<and> strIncludes (toLowerCase m1) ''rate limit'' \<and>
    prompt 2 = Resolves (Some output) \<and> AnalyzeClothingItemOutputSchema output = []
    \<longrightarrow> analyzeClothingItemFlow prompt =
          (Inr output, [Prompt, Sleep 2000, Prompt, Sleep 4000, Prompt])) \<and>
   (cprompt 0 = Throws (Error c0) \<and> strIncludes (toLowerCase c0) ''rate limit'' \<and>
    cprompt 1 = Throws (Error c1) \<and> strIncludes (toLowerCase c1) ''rate limit'' \<and>
    cprompt 2 = Resolves (Some raw) \<and> PerformColorAnalysisOutputSchema raw = []
    \<longrightarrow> (\<not> isUnanalyzable raw \<longrightarrow>
           performColorAnalysisFlow cprompt =
             (Inr raw, [Prompt, Sleep 2000, Prompt, Sleep 4000, Prompt])) \<and>
        (isUnanalyzable raw \<longrightarrow>
           (\<exists>ch. fixCharacteristics (characteristics raw) = Inr ch \<and>
              performColorAnalysisFlow cprompt =
                (Inr (raw\<lparr>recommendedColors := Some [], avoidColors := Some [],
                          analysisDescription := fixDescription (analysisDescription raw),
                          characteristics := ch,
                          paletteDescription := fixPalette (paletteDescription raw)\<rparr>),
                 [Prompt, Sleep 2000, Prompt, Sleep 4000, Prompt])))) \<and>
   calls [Prompt, Sleep 2000, Prompt, Sleep 4000, Prompt] = 3 \<and>
   delays [Prompt, Sleep 2000, Prompt, Sleep 4000, Prompt] = [2000, 4000]"
proof (intro conjI impI)
  assume "prompt 0 = Throws (Error m0) \<and> strIncludes (toLowerCase m0) ''rate limit'' \<and>
    prompt 1 = Throws (Error m1) \<and> strIncludes (toLowerCase m1) ''rate limit'' \<and>
    prompt 2 = Resolves (Some output) \<and> AnalyzeClothingItemOutputSchema output = []"
  then show "analyzeClothingItemFlow prompt =
             (Inr output, [Prompt, Sleep 2000, Prompt, Sleep 4000, Prompt])"
    using clothing_retried_twice [of prompt m0 m1 "output"] by blast
next
  assume a: "cprompt 0 = Throws (Error c0) \<and> strIncludes (toLowerCase c0) ''rate limit'' \<and>
    cprompt 1 = Throws (Error c1) \<and> strIncludes (toLowerCase c1) ''rate limit'' \<and>
    cprompt 2 = Resolves (Some raw) \<and> PerformColorAnalysisOutputSchema raw = []"
  assume d: "\<not> isUnanalyzable raw"
  from a have "postProcess raw = Inr raw"
    using d valid_has_arrays [of raw] by (intro postProcess_determined) simp_all
  with a show "performColorAnalysisFlow cprompt =
               (Inr raw, [Prompt, Sleep 2000, Prompt, Sleep 4000, Prompt])"
    using color_retried_twice [of cprompt c0 c1 raw raw] by blast
next
  assume a: "cprompt 0 = Throws (Error c0) \<and> strIncludes (toLowerCase c0) ''rate limit'' \<and>
    cprompt 1 = Throws (Error c1) \<and> strIncludes (toLowerCase c1) ''rate limit'' \<and>
    cprompt 2 = Resolves (Some raw) \<and> PerformColorAnalysisOutputSchema raw = []"
  assume u: "isUnanalyzable raw"
  from a u obtain ch where ch: "fixCharacteristics (characteristics raw) = Inr ch"
    and v: "PerformColorAnalysisOutputSchema
       (raw\<lparr>recommendedColors := Some [], avoidColors := Some [],
             analysisDescription := fixDescription (analysisDescription raw),
             characteristics := ch,
             paletteDescription := fixPalette (paletteDescription raw)\<rparr>) = []"
    using valid_unanalyzable [of raw] by blast
  note pp = postProcess_unanalyzable_eq [OF u ch]
  have "performColorAnalysisFlow cprompt =
        (Inr (raw\<lparr>recommendedColors := Some [], avoidColors := Some [],
                  analysisDescription := fixDescription (analysisDescription raw),
                  characteristics := ch,
                  paletteDescription := fixPalette (paletteDescription raw)\<rparr>),
         [Prompt, Sleep 2000, Prompt, Sleep 4000, Prompt])"
    using a pp v
      color_retried_twice [of cprompt c0 c1 raw
        "raw\<lparr>recommendedColors := Some [], avoidColors := Some [],
              analysisDescription := fixDescription (analysisDescription raw),
              characteristics := ch,
              paletteDescription := fixPalette (paletteDescription raw)\<rparr>"]
    by blast
  with ch show "\<exists>ch. fixCharacteristics (characteristics raw) = Inr ch \<and>
              performColorAnalysisFlow cprompt =
                (Inr (raw\<lparr>recommendedColors := Some [], avoidColors := Some [],
                          analysisDescription := fixDescription (analysisDescription raw),
                          characteristics := ch,
                          paletteDescription := fixPalette (paletteDescription raw)\<rparr>),
                 [Prompt, Sleep 2000, Prompt, Sleep 4000, Prompt])"
    by blast
next
  show "calls [Prompt, Sleep 2000, Prompt, Sleep 4000, Prompt] = 3"
    by (simp add: calls_def)
next
  show "delays [Prompt, Sleep 2000, Prompt, Sleep 4000, Prompt] = [2000, 4000]"
    by simp
qed

lemma undeterminedWinter_facts:
  "PerformColorAnalysisOutputSchema undeterminedWinter = []"
  "isUnanalyzable undeterminedWinter"
  "postProcess undeterminedWinter = Inr strayNormalized"
  "PerformColorAnalysisOutputSchema strayNormalized = []"
  by code_simp+

theorem retry_twice_then_success_witness:
  "analyzeClothingItemFlow (scripted 2 ''429 Rate limit exceeded'' (Resolves (Some blueShirt))) =
     (Inr blueShirt, [Prompt, Sleep 2000, Prompt, Sleep 4000, Prompt]) \<and>
   performColorAnalysisFlow (scripted 2 ''429 Rate limit exceeded'' (Resolves (Some winterResult))) =
     (Inr winterResult, [Prompt, Sleep 2000, Prompt, Sleep 4000, Prompt]) \<and>
   fst (performColorAnalysisFlow
          (scripted 2 ''429 Rate limit exceeded'' (Resolves (Some undeterminedWinter)))) =
     Inr strayNormalized"
proof -
  have rl: "strIncludes (toLowerCase ''429 Rate limit exceeded'') ''rate limit''"
    by code_simp
  have v1: "AnalyzeClothingItemOutputSchema blueShirt = []" by code_simp
  have v2: "PerformColorAnalysisOutputSchema winterResult = []" by code_simp
  have d2: "\<not> isUnanalyzable winterResult" by code_simp
  have fc: "fixCharacteristics (characteristics undeterminedWinter) =
            Inr (Some sentinelCharacteristics)"
    by code_simp
  have n: "undeterminedWinter\<lparr>recommendedColors := Some [], avoidColors := Some [],
             analysisDescription := fixDescription (analysisDescription undeterminedWinter),
             characteristics := Some sentinelCharacteristics,
             paletteDescription := fixPalette (paletteDescription undeterminedWinter)\<rparr> =
           strayNormalized"
    by code_simp
  have a: "analyzeClothingItemFlow (scripted 2 ''429 Rate limit exceeded'' (Resolves (Some blueShirt))) =
             (Inr blueShirt, [Prompt, Sleep 2000, Prompt, Sleep 4000, Prompt]) \<and>
           performColorAnalysisFlow (scripted 2 ''429 Rate limit exceeded'' (Resolves (Some winterResult))) =
             (Inr winterResult, [Prompt, Sleep 2000, Prompt, Sleep 4000, Prompt])"
    using retry_twice_then_success
      [of "scripted 2 ''429 Rate limit exceeded'' (Resolves (Some blueShirt))"
          "''429 Rate limit exceeded''" "''429 Rate limit exceeded''" blueShirt
          "scripted 2 ''429 Rate limit exceeded'' (Resolves (Some winterResult))"
          "''429 Rate limit exceeded''" "''429 Rate limit exceeded''" winterResult]
      rl v1 v2 d2
    by (simp add: scripted_def)
  have "\<exists>ch. fixCharacteristics (characteristics undeterminedWinter) = Inr ch \<and>
          performColorAnalysisFlow
            (scripted 2 ''429 Rate limit exceeded'' (Resolves (Some undeterminedWinter))) =
          (Inr (undeterminedWinter\<lparr>recommendedColors := Some [], avoidColors := Some [],
                  analysisDescription := fixDescription (analysisDescription undeterminedWinter),
                  characteristics := ch,
                  paletteDescription := fixPalette (paletteDescription undeterminedWinter)\<rparr>),
           [Prompt, Sleep 2000, Prompt, Sleep 4000, Prompt])"
    using retry_twice_then_success
      [of "scripted 2 ''429 Rate limit exceeded'' (Resolves (Some blueShirt))"
          "''429 Rate limit exceeded''" "''429 Rate limit exceeded''" blueShirt
          "scripted 2 ''429 Rate limit exceeded'' (Resolves (Some undeterminedWinter))"
          "''429 Rate limit exceeded''" "''429 Rate limit exceeded''" undeterminedWinter]
      rl undeterminedWinter_facts(1,2)
    by (simp add: scripted_def)
  then have b: "fst (performColorAnalysisFlow
          (scripted 2 ''429 Rate limit exceeded'' (Resolves (Some undeterminedWinter)))) =
     Inr strayNormalized"
    using fc n by auto
  from a b show ?thesis by blast
qed

text \<open>
  Claim C4 as stated fails for the colour analysis: a schema-valid third answer with an
  undetermined season is not what the flow returns.
\<close>

theorem undetermined_answer_counterexample:
  "PerformColorAnalysisOutputSchema undeterminedWinter = [] \<and>
   performColorAnalysisFlow
     (scripted 2 ''429 Rate limit exceeded'' (Resolves (Some undeterminedWinter))) =
     (Inr strayNormalized, [Prompt, Sleep 2000, Prompt, Sleep 4000, Prompt]) \<and>
   strayNormalized \<noteq> undeterminedWinter"
proof -
  have rl: "strIncludes (toLowerCase ''429 Rate limit exceeded'') ''rate limit''"
    by code_simp
  have f: "performColorAnalysisFlow
     (scripted 2 ''429 Rate limit exceeded'' (Resolves (Some undeterminedWinter))) =
     (Inr strayNormalized, [Prompt, Sleep 2000, Prompt, Sleep 4000, Prompt])"
    using rl undeterminedWinter_facts(3,4)
    by (intro color_retried_twice [of _ "''429 Rate limit exceeded''" "''429 Rate limit exceeded''"
          undeterminedWinter]) (simp_all add: scripted_def)
  have "recommendedColors strayNormalized \<noteq> recommendedColors undeterminedWinter"
    by (simp add: strayNormalized_def undeterminedWinter_def winterResult_def)
  then have "strayNormalized \<noteq> undeterminedWinter" by auto
  with f undeterminedWinter_facts(1) show ?thesis by blast
qed

lemma clothing_message_lists:
  "e \<in> set errors \<Longrightarrow>
   strIncludes (clothingValidationMessage errors) (pathOr ''item'' (path e) @ '': '' @ message e)"
proof -
  assume "e \<in> set errors"
  then have "clothingIssueLine e \<in> set (map clothingIssueLine errors)" by simp
  then have "strIncludes (joinWith ''; '' (map clothingIssueLine errors)) (clothingIssueLine e)"
    by (rule joinWith_includes)
  then have "strIncludes
      (''AI-output validatiefout: De data van de AI voldoet niet aan het verwachte formaat. Details: ''
       @ joinWith ''; '' (map clothingIssueLine errors) @ [])
      (clothingIssueLine e)"
    by (rule strIncludes_embed)
  then show ?thesis by (simp add: clothingValidationMessage_def clothingIssueLine_def)
qed

lemma color_message_lists:
  "e \<in> set errors \<Longrightarrow>
   strIncludes (colorValidationMessage errors)
     (''Veld '' @ apostrophe @ pathOr ''root'' (path e) @ apostrophe @ '': '' @ message e)"
proof -
  assume "e \<in> set errors"
  then have "colorIssueLine e \<in> set (map colorIssueLine errors)" by simp
  then have "strIncludes (joinWith ''; '' (map colorIssueLine errors)) (colorIssueLine e)"
    by (rule joinWith_includes)
  then have "strIncludes
      (''AI-output validatiefout: '' @ joinWith ''; '' (map colorIssueLine errors) @
       ''. Controleer of de AI de data in het juiste formaat retourneert, inclusief het correcte aantal kleuren indien een seizoen is bepaald.'')
      (colorIssueLine e)"
    by (rule strIncludes_embed)
  then show ?thesis by (simp add: colorValidationMessage_def colorIssueLine_def)
qed

lemma color_invalid_at:
  assumes "n < maxRetries" "\<forall>j<n. \<exists>m. prompt j = Throws (Error m) \<and> isRetryableError m"
    "prompt n = Resolves (Some raw)" "postProcess raw = Inr result"
    "PerformColorAnalysisOutputSchema result \<noteq> []"
  shows "performColorAnalysisFlow prompt =
         (Inl (ValidationFailed (colorValidationMessage (PerformColorAnalysisOutputSchema result))),
          backoffTrace n @ [Prompt])"
proof -
  have "performColorAnalysisFlow prompt =
        performColorAnalysisLoop prompt n (2000 * 2 ^ n) (backoffTrace n)"
    using assms(1,2) by (rule color_skip)
  also have "\<dots> = (Inl (ValidationFailed
                 (colorValidationMessage (PerformColorAnalysisOutputSchema result))),
               backoffTrace n @ [Prompt])"
    using assms by (intro color_wraps) (simp_all add: color_try_invalid)
  finally show ?thesis .
qed

lemma clothing_invalid_at:
  assumes "k < maxRetries" "\<forall>j<k. \<exists>m. prompt j = Throws (Error m) \<and> isRetryableError m"
    "prompt k = Resolves (Some out)" "AnalyzeClothingItemOutputSchema out \<noteq> []"
  shows "analyzeClothingItemFlow prompt =
         (Inl (ValidationFailed (clothingValidationMessage (AnalyzeClothingItemOutputSchema out))),
          backoffTrace k @ [Prompt])"
proof -
  have "analyzeClothingItemFlow prompt =
        analyzeClothingItemLoop prompt k (2000 * 2 ^ k) (backoffTrace k)"
    using assms(1,2) by (rule clothing_skip)
  also have "\<dots> = (Inl (ValidationFailed
                 (clothingValidationMessage (AnalyzeClothingItemOutputSchema out))),
               backoffTrace k @ [Prompt])"
    using assms by (intro clothing_wraps) (simp_all add: clothing_try_invalid)
  finally show ?thesis .
qed

text \<open>
  Claim C6, as the code has it. In both retrying flows, on whichever attempt \<open>parse\<close> rejects
  what it is given (after \<open>k\<close> retried failures, \<open>k\<close> below the ceiling), the flow ends there:
  the trace holds the \<open>k\<close> earlier attempts with their suspensions and this one call, nothing
  after it, and the error is the wrapped validation error. The clothing analysis gives \<open>parse\<close>
  the model's output. The colour analysis gives it the model's output when the season is
  determined and both colour arrays are present, and the post-processed output (colour lists
  emptied, explanation, characteristics and palette description as \<open>fixDescription\<close>,
  \<open>fixCharacteristics\<close> and \<open>fixPalette\<close> leave them) when the season matches an
  undetermined-keyword. The message of the validation error contains, for every issue that
  \<open>parse\<close> reported, the issue's path and reason.
\<close>

theorem validation_failure_is_final:
  "(k < maxRetries \<and> (\<forall>j<k. \<exists>m. prompt j = Throws (Error m) \<and> isRetryableError m) \<and>
    prompt k = Resolves (Some out) \<and> AnalyzeClothingItemOutputSchema out \<noteq> []
    \<longrightarrow> analyzeClothingItemFlow prompt =
          (Inl (ValidationFailed (clothingValidationMessage (AnalyzeClothingItemOutputSchema out))),
           backoffTrace k @ [Prompt])) \<and>
   (n < maxRetries \<and> (\<forall>j<n. \<exists>m. cprompt j = Throws (Error m) \<and> isRetryableError m) \<and>
    cprompt n = Resolves (Some raw) \<and> \<not> isUnanalyzable raw \<and>
    recommendedColors raw \<noteq> None \<and> avoidColors raw \<noteq> None \<and>
    PerformColorAnalysisOutputSchema raw \<noteq> []
    \<longrightarrow> performColorAnalysisFlow cprompt =
          (Inl (ValidationFailed (colorValidationMessage (PerformColorAnalysisOutputSchema raw))),
           backoffTrace n @ [Prompt])) \<and>
   (n < maxRetries \<and> (\<forall>j<n. \<exists>m. cprompt j = Throws (Error m) \<and> isRetryableError m) \<and>
    cprompt n = Resolves (Some raw) \<and> isUnanalyzable raw \<and>
    fixCharacteristics (characteristics raw) = Inr ch \<and>
    PerformColorAnalysisOutputSchema
      (raw\<lparr>recommendedColors := Some [], avoidColors := Some [],
            analysisDescription := fixDescription (analysisDescription raw),
            characteristics := ch,
            paletteDescription := fixPalette (paletteDescription raw)\<rparr>) \<noteq> []
    \<longrightarrow> performColorAnalysisFlow cprompt =
          (Inl (ValidationFailed (colorValidationMessage (PerformColorAnalysisOutputSchema
             (raw\<lparr>recommendedColors := Some [], avoidColors := Some [],
                   analysisDescription := fixDescription (analysisDescription raw),
                   characteristics := ch,
                   paletteDescription := fixPalette (paletteDescription raw)\<rparr>)))),
           backoffTrace n @ [Prompt])) \<and>
   (\<forall>e \<in> set errors.
      strIncludes (clothingValidationMessage errors)
        (pathOr ''item'' (path e) @ '': '' @ message e) \<and>
      strIncludes (colorValidationMessage errors)
        (''Veld '' @ apostrophe @ pathOr ''root'' (path e) @ apostrophe @ '': '' @ message e))"
proof (intro conjI impI ballI)
  assume "k < maxRetries \<and> (\<forall>j<k. \<exists>m. prompt j = Throws (Error m) \<and> isRetryableError m) \<and>
    prompt k = Resolves (Some out) \<and> AnalyzeClothingItemOutputSchema out \<noteq> []"
  then show "analyzeClothingItemFlow prompt =
          (Inl (ValidationFailed (clothingValidationMessage (AnalyzeClothingItemOutputSchema out))),
           backoffTrace k @ [Prompt])"
    using clothing_invalid_at [of k prompt out] by blast
next
  assume a: "n < maxRetries \<and> (\<forall>j<n. \<exists>m. cprompt j = Throws (Error m) \<and> isRetryableError m) \<and>
    cprompt n = Resolves (Some raw) \<and> \<not> isUnanalyzable raw \<and>
    recommendedColors raw \<noteq> None \<and> avoidColors raw \<noteq> None \<and>
    PerformColorAnalysisOutputSchema raw \<noteq> []"
  then have "postProcess raw = Inr raw" by (intro postProcess_determined) simp_all
  with a show "performColorAnalysisFlow cprompt =
          (Inl (ValidationFailed (colorValidationMessage (PerformColorAnalysisOutputSchema raw))),
           backoffTrace n @ [Prompt])"
    using color_invalid_at [of n cprompt raw raw] by blast
next
  assume a: "n < maxRetries \<and> (\<forall>j<n. \<exists>m. cprompt j = Throws (Error m) \<and> isRetryableError m) \<and>
    cprompt n = Resolves (Some raw) \<and> isUnanalyzable raw \<and>
    fixCharacteristics (characteristics raw) = Inr ch \<and>
    PerformColorAnalysisOutputSchema
      (raw\<lparr>recommendedColors := Some [], avoidColors := Some [],
            analysisDescription := fixDescription (analysisDescription raw),
            characteristics := ch,
            paletteDescription := fixPalette (paletteDescription raw)\<rparr>) \<noteq> []"
  then have "postProcess raw =
         Inr (raw\<lparr>recommendedColors := Some [], avoidColors := Some [],
                   analysisDescription := fixDescription (analysisDescription raw),
                   characteristics := ch,
                   paletteDescription := fixPalette (paletteDescription raw)\<rparr>)"
    by (intro postProcess_unanalyzable_eq) simp_all
  with a show "performColorAnalysisFlow cprompt =
          (Inl (ValidationFailed (colorValidationMessage (PerformColorAnalysisOutputSchema
             (raw\<lparr>recommendedColors := Some [], avoidColors := Some [],
                   analysisDescription := fixDescription (analysisDescription raw),
                   characteristics := ch,
                   paletteDescription := fixPalette (paletteDescription raw)\<rparr>)))),
           backoffTrace n @ [Prompt])"
    using color_invalid_at [of n cprompt raw
        "raw\<lparr>recommendedColors := Some [], avoidColors := Some [],
              analysisDescription := fixDescription (analysisDescription raw),
              characteristics := ch,
              paletteDescription := fixPalette (paletteDescription raw)\<rparr>"]
    by blast
next
  fix e assume "e \<in> set errors"
  then show "strIncludes (clothingValidationMessage errors)
        (pathOr ''item'' (path e) @ '': '' @ message e)"
    by (rule clothing_message_lists)
next
  fix e assume "e \<in> set errors"
  then show "strIncludes (colorValidationMessage errors)
        (''Veld '' @ apostrophe @ pathOr ''root'' (path e) @ apostrophe @ '': '' @ message e)"
    by (rule color_message_lists)
qed

theorem validation_failure_is_final_witness:
  "analyzeClothingItemFlow (scripted 1 ''try again'' (Resolves (Some shirtWithoutTypeAndStyle))) =
     (Inl (ValidationFailed
        (clothingValidationMessage
           [\<lparr>path = [Key ''itemType''], message = ''Required''\<rparr>,
            \<lparr>path = [Key ''itemStyle''], message = ''Required''\<rparr>])),
      [Prompt, Sleep 2000, Prompt]) \<and>
   strIncludes (clothingValidationMessage
           [\<lparr>path = [Key ''itemType''], message = ''Required''\<rparr>,
            \<lparr>path = [Key ''itemStyle''], message = ''Required''\<rparr>])
     ''itemStyle: Required'' \<and>
   performColorAnalysisFlow (scripted 0 [] (Resolves (Some badHexSpring))) =
     (Inl (ValidationFailed
        (colorValidationMessage
           [\<lparr>path = [Key ''recommendedColors'', Index 1, Key ''hex''], message = hexMessage\<rparr>,
            \<lparr>path = [Key ''avoidColors'', Index 0, Key ''hex''], message = hexMessage\<rparr>])),
      [Prompt]) \<and>
   strIncludes (colorValidationMessage
           [\<lparr>path = [Key ''recommendedColors'', Index 1, Key ''hex''], message = hexMessage\<rparr>,
            \<lparr>path = [Key ''avoidColors'', Index 0, Key ''hex''], message = hexMessage\<rparr>])
     (''Veld '' @ apostrophe @ ''avoidColors.0.hex'' @ apostrophe @ '': '' @ hexMessage) \<and>
   performColorAnalysisFlow (scripted 0 [] (Resolves (Some halfSentinel))) =
     (Inl (ValidationFailed
        (colorValidationMessage
           [\<lparr>path = [Key ''characteristics'', Key ''hairColor''], message = ''Required''\<rparr>,
            \<lparr>path = [Key ''characteristics'', Key ''eyeColor''], message = ''Required''\<rparr>])),
      [Prompt])"
proof -
  have r: "isRetryableError ''try again''" by code_simp
  have s1: "AnalyzeClothingItemOutputSchema shirtWithoutTypeAndStyle =
            [\<lparr>path = [Key ''itemType''], message = ''Required''\<rparr>,
             \<lparr>path = [Key ''itemStyle''], message = ''Required''\<rparr>]"
    by code_simp
  have d2: "\<not> isUnanalyzable badHexSpring" by code_simp
  have a2: "recommendedColors badHexSpring \<noteq> None" "avoidColors badHexSpring \<noteq> None"
    by (simp_all add: badHexSpring_def)
  have s2: "PerformColorAnalysisOutputSchema badHexSpring =
            [\<lparr>path = [Key ''recommendedColors'', Index 1, Key ''hex''], message = hexMessage\<rparr>,
             \<lparr>path = [Key ''avoidColors'', Index 0, Key ''hex''], message = hexMessage\<rparr>]"
    by code_simp
  have u3: "isUnanalyzable halfSentinel" by code_simp
  have c3: "fixCharacteristics (characteristics halfSentinel) =
            Inr (Some \<lparr>skinTone = Some sentinel, hairColor = None, eyeColor = None\<rparr>)"
    by code_simp
  have s3: "PerformColorAnalysisOutputSchema
      (halfSentinel\<lparr>recommendedColors := Some [], avoidColors := Some [],
            analysisDescription := fixDescription (analysisDescription halfSentinel),
            characteristics := Some \<lparr>skinTone = Some sentinel, hairColor = None, eyeColor = None\<rparr>,
            paletteDescription := fixPalette (paletteDescription halfSentinel)\<rparr>) =
      [\<lparr>path = [Key ''characteristics'', Key ''hairColor''], message = ''Required''\<rparr>,
       \<lparr>path = [Key ''characteristics'', Key ''eyeColor''], message = ''Required''\<rparr>]"
    by code_simp
  have p: "pathOr ''item'' [Key ''itemStyle''] = ''itemStyle''"
          "pathOr ''root'' [Key ''avoidColors'', Index 0, Key ''hex''] = ''avoidColors.0.hex''"
    by code_simp+
  have t: "backoffTrace 1 @ [Prompt] = [Prompt, Sleep 2000, Prompt]"
          "backoffTrace 0 @ [Prompt] = [Prompt]" by simp_all
  have h1: "1 < maxRetries \<and>
      (\<forall>j<1. \<exists>m. scripted 1 ''try again'' (Resolves (Some shirtWithoutTypeAndStyle)) j =
                      Throws (Error m) \<and> isRetryableError m) \<and>
      scripted 1 ''try again'' (Resolves (Some shirtWithoutTypeAndStyle)) 1 =
        Resolves (Some shirtWithoutTypeAndStyle) \<and>
      AnalyzeClothingItemOutputSchema shirtWithoutTypeAndStyle \<noteq> []"
    using r by (simp add: scripted_def maxRetries_def s1)
  have h2: "0 < maxRetries \<and>
      (\<forall>j<0. \<exists>m. scripted 0 [] (Resolves (Some badHexSpring)) j = Throws (Error m) \<and>
                      isRetryableError m) \<and>
      scripted 0 [] (Resolves (Some badHexSpring)) 0 = Resolves (Some badHexSpring) \<and>
      \<not> isUnanalyzable badHexSpring \<and>
      recommendedColors badHexSpring \<noteq> None \<and> avoidColors badHexSpring \<noteq> None \<and>
      PerformColorAnalysisOutputSchema badHexSpring \<noteq> []"
    using d2 a2 by (simp add: scripted_def maxRetries_def s2)
  have h3: "0 < maxRetries \<and>
      (\<forall>j<0. \<exists>m. scripted 0 [] (Resolves (Some halfSentinel)) j = Throws (Error m) \<and>
                      isRetryableError m) \<and>
      scripted 0 [] (Resolves (Some halfSentinel)) 0 = Resolves (Some halfSentinel) \<and>
      isUnanalyzable halfSentinel \<and>
      fixCharacteristics (characteristics halfSentinel) =
        Inr (Some \<lparr>skinTone = Some sentinel, hairColor = None, eyeColor = None\<rparr>) \<and>
      PerformColorAnalysisOutputSchema
        (halfSentinel\<lparr>recommendedColors := Some [], avoidColors := Some [],
            analysisDescription := fixDescription (analysisDescription halfSentinel),
            characteristics := Some \<lparr>skinTone = Some sentinel, hairColor = None, eyeColor = None\<rparr>,
            paletteDescription := fixPalette (paletteDescription halfSentinel)\<rparr>) \<noteq> []"
    using u3 c3 by (simp add: scripted_def maxRetries_def s3)
  note m1 = validation_failure_is_final
      [of 1 "scripted 1 ''try again'' (Resolves (Some shirtWithoutTypeAndStyle))"
          shirtWithoutTypeAndStyle 0 "scripted 0 [] (Resolves (Some badHexSpring))" badHexSpring
          "Some sentinelCharacteristics"
          "[\<lparr>path = [Key ''itemType''], message = ''Required''\<rparr>,
            \<lparr>path = [Key ''itemStyle''], message = ''Required''\<rparr>]"]
  note m2 = validation_failure_is_final
      [of 1 "scripted 1 ''try again'' (Resolves (Some shirtWithoutTypeAndStyle))"
          shirtWithoutTypeAndStyle 0 "scripted 0 [] (Resolves (Some halfSentinel))" halfSentinel
          "Some \<lparr>skinTone = Some sentinel, hairColor = None, eyeColor = None\<rparr>"
          "[\<lparr>path = [Key ''recommendedColors'', Index 1, Key ''hex''], message = hexMessage\<rparr>,
            \<lparr>path = [Key ''avoidColors'', Index 0, Key ''hex''], message = hexMessage\<rparr>]"]
  from m1 h1 have c1: "analyzeClothingItemFlow
        (scripted 1 ''try again'' (Resolves (Some shirtWithoutTypeAndStyle))) =
      (Inl (ValidationFailed
         (clothingValidationMessage (AnalyzeClothingItemOutputSchema shirtWithoutTypeAndStyle))),
       backoffTrace 1 @ [Prompt])"
    by blast
  from m1 h2 have c2: "performColorAnalysisFlow (scripted 0 [] (Resolves (Some badHexSpring))) =
      (Inl (ValidationFailed (colorValidationMessage (PerformColorAnalysisOutputSchema badHexSpring))),
       backoffTrace 0 @ [Prompt])"
    by blast
  from m2 h3 have c3': "performColorAnalysisFlow (scripted 0 [] (Resolves (Some halfSentinel))) =
      (Inl (ValidationFailed (colorValidationMessage (PerformColorAnalysisOutputSchema
         (halfSentinel\<lparr>recommendedColors := Some [], avoidColors := Some [],
            analysisDescription := fixDescription (analysisDescription halfSentinel),
            characteristics := Some \<lparr>skinTone = Some sentinel, hairColor = None, eyeColor = None\<rparr>,
            paletteDescription := fixPalette (paletteDescription halfSentinel)\<rparr>)))),
       backoffTrace 0 @ [Prompt])"
    by blast
  from m1 have e1: "strIncludes (clothingValidationMessage
           [\<lparr>path = [Key ''itemType''], message = ''Required''\<rparr>,
            \<lparr>path = [Key ''itemStyle''], message = ''Required''\<rparr>])
        (pathOr ''item'' [Key ''itemStyle''] @ '': '' @ ''Required'')"
    by simp
  from m2 have e2: "strIncludes (colorValidationMessage
           [\<lparr>path = [Key ''recommendedColors'', Index 1, Key ''hex''], message = hexMessage\<rparr>,
            \<lparr>path = [Key ''avoidColors'', Index 0, Key ''hex''], message = hexMessage\<rparr>])
        (''Veld '' @ apostrophe @ pathOr ''root'' [Key ''avoidColors'', Index 0, Key ''hex''] @
         apostrophe @ '': '' @ hexMessage)"
    by simp
  show ?thesis
    using c1 c2 c3' e1 e2 unfolding s1 s2 s3 p t by simp
qed

text \<open>
  Claim C6 as stated fails for the colour analysis. An answer that holds only an undetermined
  season violates the schema in five fields, yet post-processing repairs it and the flow
  returns it. An answer with a determined season and no list of recommended colours violates
  the schema, yet the flow ends in the \<open>TypeError\<close> of the length check, rethrown unwrapped.
\<close>

theorem repaired_output_counterexample:
  "PerformColorAnalysisOutputSchema onlySeason \<noteq> [] \<and>
   performColorAnalysisFlow (scripted 0 [] (Resolves (Some onlySeason))) =
     (Inr onlySeasonRepaired, [Prompt]) \<and>
   PerformColorAnalysisOutputSchema winterNoRecommended \<noteq> [] \<and>
   performColorAnalysisFlow (scripted 0 [] (Resolves (Some winterNoRecommended))) =
     (Inl (Propagated (Error typeErrorLength)), [Prompt])"
proof -
  have i1: "PerformColorAnalysisOutputSchema onlySeason \<noteq> []" by code_simp
  have pp: "postProcess onlySeason = Inr onlySeasonRepaired" by code_simp
  have v: "PerformColorAnalysisOutputSchema onlySeasonRepaired = []" by code_simp
  have "performColorAnalysisTry (scripted 0 [] (Resolves (Some onlySeason)) 0) =
        Inr onlySeasonRepaired"
    using pp v by (simp add: scripted_def color_try_valid)
  then have f1: "performColorAnalysisFlow (scripted 0 [] (Resolves (Some onlySeason))) =
                 (Inr onlySeasonRepaired, [Prompt])"
    unfolding performColorAnalysisFlow_def
    using color_returns [of 0 "scripted 0 [] (Resolves (Some onlySeason))" onlySeasonRepaired
        2000 "[]"]
    by (simp add: maxRetries_def)
  have i2: "PerformColorAnalysisOutputSchema winterNoRecommended \<noteq> []" by code_simp
  have te: "postProcess winterNoRecommended = Inl (Error typeErrorLength)" by code_simp
  have "performColorAnalysisTry (scripted 0 [] (Resolves (Some winterNoRecommended)) 0) =
        Inl (Error typeErrorLength)"
    using te by (simp add: scripted_def performColorAnalysisTry_def)
  then have f2: "performColorAnalysisFlow (scripted 0 [] (Resolves (Some winterNoRecommended))) =
                 (Inl (Propagated (Error typeErrorLength)), [Prompt])"
    unfolding performColorAnalysisFlow_def
    using color_rethrows [of 0 "scripted 0 [] (Resolves (Some winterNoRecommended))"
        typeErrorLength 2000 "[]"] type_errors_not_retryable(1)
    by (simp add: maxRetries_def)
  from i1 f1 i2 f2 show ?thesis by blast
qed

end
